theory Spec2Isabelle
  imports Complex_Main
begin

section \<open>Vector control of synchronous machine drives: data model\<close>

text \<open>
  The controller of \<^verbatim>\<open>motulator/control/sm/_vector.py\<close> computes with Python and NumPy
  floats. The model computes with the real and complex numbers they stand for, and writes
  out the three places where the floating-point result is not a number of that kind:
  a division by zero, the square root of a negative number (NumPy returns NaN), and the
  infinite argument \<^verbatim>\<open>np.inf\<close> handed to the torque-limit table.
\<close>

datatype error = ZeroDivisionError | TypeError | AttributeError

text \<open>A float argument that is either a number or \<^verbatim>\<open>np.inf\<close>.\<close>

datatype flux = Finite real | Infinity

text \<open>\<^verbatim>\<open>a / b\<close> on floats: a zero divisor is reported, not computed with.\<close>

definition py_div :: "real \<Rightarrow> real \<Rightarrow> error + real" where
  "py_div a b = (if b = 0 then Inl ZeroDivisionError else Inr (a / b))"

text \<open>\<^verbatim>\<open>np.sqrt\<close>: NaN (\<open>None\<close>) on a negative argument.\<close>

definition np_sqrt :: "real \<Rightarrow> real option" where
  "np_sqrt x = (if x < 0 then None else Some (sqrt x))"

text \<open>\<^verbatim>\<open>np.min([a, b])\<close>: NaN as soon as one entry is NaN.\<close>

definition np_min2 :: "real option \<Rightarrow> real option \<Rightarrow> real option" where
  "np_min2 a b =
     (case a of None \<Rightarrow> None
      | Some x \<Rightarrow> (case b of None \<Rightarrow> None | Some y \<Rightarrow> Some (min x y)))"

text \<open>\<^verbatim>\<open>np.clip(x, lo, hi)\<close> is \<^verbatim>\<open>np.minimum(hi, np.maximum(x, lo))\<close>.\<close>

definition np_clip :: "real \<Rightarrow> real \<Rightarrow> real \<Rightarrow> real" where
  "np_clip x lo hi = min hi (max x lo)"

text \<open>
  \<^verbatim>\<open>np.mod(x, y)\<close> with a positive divisor, in exact arithmetic: the remainder has the sign
  of the divisor and lies below it.
\<close>

definition np_mod :: "real \<Rightarrow> real \<Rightarrow> real" where
  "np_mod x y = x - y * of_int \<lfloor>x / y\<rfloor>"

text \<open>
  Where a claim turns on the last bit of a result, the rounding of the floating-point
  operations is made explicit: a function \<open>rnd\<close> is applied to the exact result of every
  operation that rounds. With the identity for \<open>rnd\<close> this is the exact arithmetic above;
  with \<open>float64\<close> it is the arithmetic of \<^verbatim>\<open>np.float64\<close>, round to nearest with ties to
  even on 53 significant bits, away from overflow and underflow.
\<close>

definition round_even :: "real \<Rightarrow> int" where
  "round_even x =
     (let n = \<lfloor>x\<rfloor>; f = x - of_int n
      in if f < 1 / 2 then n else if 1 / 2 < f then n + 1 else if even n then n else n + 1)"

definition ulp :: "real \<Rightarrow> real" where
  "ulp x = 2 powr of_int (\<lfloor>log 2 \<bar>x\<bar>\<rfloor> - 52)"

definition float64 :: "real \<Rightarrow> real" where
  "float64 x = (if x = 0 then 0 else of_int (round_even (x / ulp x)) * ulp x)"

text \<open>The constant \<^verbatim>\<open>np.pi\<close>, the \<^verbatim>\<open>np.float64\<close> nearest to \<open>\<pi>\<close>.\<close>

definition np_pi :: real where
  "np_pi = 884279719003555 / 2 ^ 48"

text \<open>
  \<^verbatim>\<open>np.mod\<close> on floats takes the exact \<^verbatim>\<open>fmod\<close> and, where its sign differs from the
  divisor's, adds the divisor: one rounded addition, so that the float result is the
  rounded exact remainder and can be the divisor itself.
\<close>

definition np_mod_rnd :: "(real \<Rightarrow> real) \<Rightarrow> real \<Rightarrow> real \<Rightarrow> real" where
  "np_mod_rnd rnd x y = rnd (np_mod x y)"

text \<open>\<^verbatim>\<open>np.sqrt\<close> with its rounding.\<close>

definition np_sqrt_rnd :: "(real \<Rightarrow> real) \<Rightarrow> real \<Rightarrow> real option" where
  "np_sqrt_rnd rnd x = (if x < 0 then None else Some (rnd (sqrt x)))"

record ModelPars =
  R_s :: real
  L_d :: real
  L_q :: real
  psi_f :: real
  n_p :: int
  J :: real

text \<open>
  The reference parameters after \<^verbatim>\<open>__post_init__\<close>. The three tables come from
  \<^verbatim>\<open>TorqueCharacteristics\<close> of \<^verbatim>\<open>motulator.control.sm._torque\<close>, which is not among the
  files verified here: they are arbitrary functions.
\<close>

record CurrentReferencePars =
  i_s_max :: real
  psi_s_min :: real
  k_fw :: real
  k_u :: real
  i_sd_mtpa :: "real \<Rightarrow> real"
  tau_M_lim :: "flux \<Rightarrow> real"
  i_sd_lim :: "real \<Rightarrow> real"

section \<open>External collaborators\<close>

text \<open>
  The plant readings of one invocation: \<^verbatim>\<open>mdl.machine.meas_currents()\<close>,
  \<^verbatim>\<open>mdl.converter.meas_dc_voltage()\<close>, \<^verbatim>\<open>mdl.mechanics.meas_speed()\<close> and
  \<^verbatim>\<open>mdl.mechanics.meas_position()\<close>.
\<close>

record Drive =
  meas_currents :: "real \<times> real \<times> real"
  meas_dc_voltage :: real
  meas_speed :: real
  meas_position :: real

text \<open>The record handed to \<^verbatim>\<open>self.save\<close>; the field \<open>log_x\<close> is the key \<^verbatim>\<open>x\<close>.\<close>

record Data =
  log_i_s :: complex
  log_i_s_ref :: complex
  log_t :: real
  log_tau_M_ref_lim :: real
  log_theta_m :: real
  log_u_dc :: real
  log_u_s :: complex
  log_w_m :: real
  log_w_m_ref :: real

text \<open>
  The speed controller, the complex PI law under the current controller, the PWM, the clock
  and the logger live in \<^verbatim>\<open>motulator.control._common\<close>, and \<^verbatim>\<open>abc2complex\<close> in
  \<^verbatim>\<open>motulator._helpers\<close>; neither file is among the files verified here. Their methods
  are parameters of the model. They act on one state \<open>'x\<close>, the state of all of them together,
  and every method that may assign to its object returns the state it leaves.
\<close>

record 'x collaborators =
  abc2complex :: "real \<times> real \<times> real \<Rightarrow> complex"
  clock_t :: "'x \<Rightarrow> real"
  realized_voltage :: "'x \<Rightarrow> complex"
  speed_ctrl_output :: "'x \<Rightarrow> real \<Rightarrow> real \<Rightarrow> real \<times> 'x"
  pi_output :: "'x \<Rightarrow> complex \<Rightarrow> complex \<Rightarrow> complex \<times> 'x"
  save :: "'x \<Rightarrow> Data \<Rightarrow> 'x"
  speed_ctrl_update :: "'x \<Rightarrow> real \<Rightarrow> real \<Rightarrow> 'x"
  pi_update :: "'x \<Rightarrow> real \<Rightarrow> complex \<Rightarrow> real \<Rightarrow> 'x"
  clock_update :: "'x \<Rightarrow> real \<Rightarrow> 'x"
  pwm_call :: "'x \<Rightarrow> real \<Rightarrow> complex \<Rightarrow> real \<Rightarrow> real \<Rightarrow> real \<Rightarrow> (real \<times> real \<times> real) \<times> 'x"

section \<open>Current controller\<close>

text \<open>
  \<^verbatim>\<open>CurrentCtrl\<close> adds the two inductances to the PI law it extends; the gains and the
  integral state of the PI law are part of the collaborators' state.
\<close>

record CurrentCtrl =
  L_d :: real
  L_q :: real

text \<open>\<^verbatim>\<open>CurrentCtrl.output(i_ref, i)\<close>: the currents become flux linkages, then the PI law.\<close>

definition CurrentCtrl_output ::
  "'x collaborators \<Rightarrow> CurrentCtrl \<Rightarrow> 'x \<Rightarrow> complex \<Rightarrow> complex \<Rightarrow> complex \<times> 'x" where
  "CurrentCtrl_output E self x i_ref i =
     (let psi_ref = of_real (L_d self * Re i_ref) + \<i> * of_real (L_q self * Im i_ref);
          psi = of_real (L_d self * Re i) + \<i> * of_real (L_q self * Im i)
      in pi_output E x psi_ref psi)"

section \<open>Current reference generator\<close>

record CurrentReference =
  n_p :: int
  L_d :: real
  L_q :: real
  psi_f :: real
  i_sd_mtpa :: "real \<Rightarrow> real"
  tau_M_lim :: "flux \<Rightarrow> real"
  i_sd_lim :: "real \<Rightarrow> real"
  psi_s_min :: real
  i_s_max :: real
  k_fw :: real
  k_u :: real
  i_sd_ref :: real

definition CurrentReference_init :: "ModelPars \<Rightarrow> CurrentReferencePars \<Rightarrow> CurrentReference" where
  "CurrentReference_init par ref =
     \<lparr>n_p = ModelPars.n_p par,
      L_d = ModelPars.L_d par, L_q = ModelPars.L_q par, psi_f = ModelPars.psi_f par,
      i_sd_mtpa = CurrentReferencePars.i_sd_mtpa ref,
      tau_M_lim = CurrentReferencePars.tau_M_lim ref,
      i_sd_lim = CurrentReferencePars.i_sd_lim ref,
      psi_s_min = CurrentReferencePars.psi_s_min ref,
      i_s_max = CurrentReferencePars.i_s_max ref,
      k_fw = CurrentReferencePars.k_fw ref,
      k_u = CurrentReferencePars.k_u ref,
      i_sd_ref = 0\<rparr>"

text \<open>The local function \<^verbatim>\<open>limit_torque\<close> of \<^verbatim>\<open>CurrentReference.output\<close>.\<close>

definition tau_M_max :: "CurrentReference \<Rightarrow> real \<Rightarrow> real \<Rightarrow> real" where
  "tau_M_max self w_m u_dc =
     (if \<bar>w_m\<bar> > 0
      then (let psi_s_max = k_u self * u_dc / sqrt 3 / \<bar>w_m\<bar>
            in tau_M_lim self (Finite psi_s_max))
      else tau_M_lim self Infinity)"

definition limit_torque :: "CurrentReference \<Rightarrow> real \<Rightarrow> real \<Rightarrow> real \<Rightarrow> real" where
  "limit_torque self tau_M_ref w_m u_dc =
     (if \<bar>tau_M_ref\<bar> > tau_M_max self w_m u_dc
      then sgn tau_M_ref * tau_M_max self w_m u_dc
      else tau_M_ref)"

text \<open>The total flux \<^verbatim>\<open>psi_t\<close> and the q-axis bound \<^verbatim>\<open>i_sq_max\<close> of \<^verbatim>\<open>output\<close>.\<close>

definition psi_t :: "CurrentReference \<Rightarrow> real" where
  "psi_t self = psi_f self + (L_d self - L_q self) * i_sd_ref self"

definition i_sq_max :: "CurrentReference \<Rightarrow> real \<Rightarrow> real option" where
  "i_sq_max self tau_M_ref =
     np_min2 (np_sqrt ((i_s_max self)\<^sup>2 - (i_sd_ref self)\<^sup>2))
             (np_sqrt ((i_s_max self)\<^sup>2 - (i_sd_mtpa self \<bar>tau_M_ref\<bar>)\<^sup>2))"

text \<open>
  \<^verbatim>\<open>CurrentReference.output(tau_M_ref, w_m, u_dc)\<close>. The method is a state transformer:
  it returns the pair \<^verbatim>\<open>(i_s_ref, tau_M_ref_lim)\<close> together with the object after the
  call. Where \<^verbatim>\<open>i_sq_max\<close> is NaN the comparison \<^verbatim>\<open>np.abs(i_sq_ref) > i_sq_max\<close> is false
  and the q-axis reference is left as it is.
\<close>

definition CurrentReference_output ::
  "CurrentReference \<Rightarrow> real \<Rightarrow> real \<Rightarrow> real \<Rightarrow> error + ((complex \<times> real) \<times> CurrentReference)" where
  "CurrentReference_output self tau_M_ref0 w_m u_dc =
     (let tau_M_ref = limit_torque self tau_M_ref0 w_m u_dc
      in case (if psi_t self \<noteq> 0
               then py_div tau_M_ref (1.5 * of_int (n_p self) * psi_t self)
               else Inr 0) of
           Inl err \<Rightarrow> Inl err
         | Inr i_sq_ref0 \<Rightarrow>
             (let i_sq_ref =
                    (case i_sq_max self tau_M_ref of
                       None \<Rightarrow> i_sq_ref0
                     | Some m \<Rightarrow> if \<bar>i_sq_ref0\<bar> > m then sgn i_sq_ref0 * m else i_sq_ref0);
                  i_s_ref = complex_of_real (i_sd_ref self) + \<i> * complex_of_real i_sq_ref;
                  tau_M_ref_lim = 1.5 * of_int (n_p self) * psi_t self * i_sq_ref
              in Inr ((i_s_ref, tau_M_ref_lim), self)))"

text \<open>\<^verbatim>\<open>CurrentReference.update(T_s, tau_M_ref_lim, u_s_ref, u_dc)\<close>.\<close>

definition CurrentReference_update ::
  "CurrentReference \<Rightarrow> real \<Rightarrow> real \<Rightarrow> complex \<Rightarrow> real \<Rightarrow> CurrentReference" where
  "CurrentReference_update self T_s tau_M_ref_lim u_s_ref u_dc =
     (let u_s_max = k_u self * u_dc / sqrt 3;
          i_sd_ref1 = i_sd_ref self + T_s * k_fw self * (u_s_max - cmod u_s_ref);
          i_sd_mtpa_v = i_sd_mtpa self \<bar>tau_M_ref_lim\<bar>;
          i_sd_lim_v = i_sd_lim self \<bar>tau_M_ref_lim\<bar>
      in self\<lparr>i_sd_ref := np_clip i_sd_ref1 i_sd_lim_v i_sd_mtpa_v\<rparr>)"

text \<open>
  The q-axis reference of \<^verbatim>\<open>output\<close> before and after the limiting step, as functions of
  the limited torque, where the division is defined.
\<close>

definition i_sq_unlimited :: "CurrentReference \<Rightarrow> real \<Rightarrow> real" where
  "i_sq_unlimited self tau_M_ref =
     (if psi_t self \<noteq> 0 then tau_M_ref / (1.5 * of_int (n_p self) * psi_t self) else 0)"

definition i_sq_limited :: "CurrentReference \<Rightarrow> real \<Rightarrow> real" where
  "i_sq_limited self tau_M_ref =
     (case i_sq_max self tau_M_ref of
        None \<Rightarrow> i_sq_unlimited self tau_M_ref
      | Some m \<Rightarrow> if \<bar>i_sq_unlimited self tau_M_ref\<bar> > m
                  then sgn (i_sq_unlimited self tau_M_ref) * m
                  else i_sq_unlimited self tau_M_ref)"

text \<open>A sequence of \<^verbatim>\<open>update\<close> calls: the object before the first call and after each one.\<close>

type_synonym update_args = "real \<times> real \<times> complex \<times> real"

fun update_calls :: "CurrentReference \<Rightarrow> update_args list \<Rightarrow> CurrentReference list" where
  "update_calls self [] = [self]"
| "update_calls self ((T_s, tau_M_ref_lim, u_s_ref, u_dc) # calls) =
     self # update_calls (CurrentReference_update self T_s tau_M_ref_lim u_s_ref u_dc) calls"

subsection \<open>The output with rounding\<close>

text \<open>
  \<^verbatim>\<open>CurrentReference.output\<close> once more, with the rounding \<open>rnd\<close> of each operation written
  out. The products with \<^verbatim>\<open>np.sign(...)\<close>, that is with 1, -1 or 0, and the sum
  \<^verbatim>\<open>self.i_sd_ref + 1j*i_sq_ref\<close> are exact. The product \<^verbatim>\<open>1.5*self.n_p*psi_t\<close> is
  evaluated from the left, in line 360 and again in line 375.
\<close>

definition tau_M_max_rnd :: "(real \<Rightarrow> real) \<Rightarrow> CurrentReference \<Rightarrow> real \<Rightarrow> real \<Rightarrow> real" where
  "tau_M_max_rnd rnd self w_m u_dc =
     (if \<bar>w_m\<bar> > 0
      then (let psi_s_max = rnd (rnd (rnd (k_u self * u_dc) / rnd (sqrt 3)) / \<bar>w_m\<bar>)
            in tau_M_lim self (Finite psi_s_max))
      else tau_M_lim self Infinity)"

definition limit_torque_rnd ::
  "(real \<Rightarrow> real) \<Rightarrow> CurrentReference \<Rightarrow> real \<Rightarrow> real \<Rightarrow> real \<Rightarrow> real" where
  "limit_torque_rnd rnd self tau_M_ref w_m u_dc =
     (if \<bar>tau_M_ref\<bar> > tau_M_max_rnd rnd self w_m u_dc
      then sgn tau_M_ref * tau_M_max_rnd rnd self w_m u_dc
      else tau_M_ref)"

definition psi_t_rnd :: "(real \<Rightarrow> real) \<Rightarrow> CurrentReference \<Rightarrow> real" where
  "psi_t_rnd rnd self =
     rnd (psi_f self + rnd (rnd (L_d self - L_q self) * i_sd_ref self))"

definition i_sq_max_rnd :: "(real \<Rightarrow> real) \<Rightarrow> CurrentReference \<Rightarrow> real \<Rightarrow> real option" where
  "i_sq_max_rnd rnd self tau_M_ref =
     np_min2
       (np_sqrt_rnd rnd (rnd (rnd ((i_s_max self)\<^sup>2) - rnd ((i_sd_ref self)\<^sup>2))))
       (np_sqrt_rnd rnd
          (rnd (rnd ((i_s_max self)\<^sup>2) - rnd ((i_sd_mtpa self \<bar>tau_M_ref\<bar>)\<^sup>2))))"

definition CurrentReference_output_rnd ::
  "(real \<Rightarrow> real) \<Rightarrow> CurrentReference \<Rightarrow> real \<Rightarrow> real \<Rightarrow> real \<Rightarrow>
   error + ((complex \<times> real) \<times> CurrentReference)" where
  "CurrentReference_output_rnd rnd self tau_M_ref0 w_m u_dc =
     (let tau_M_ref = limit_torque_rnd rnd self tau_M_ref0 w_m u_dc;
          psi_t_v = psi_t_rnd rnd self;
          c = rnd (rnd (1.5 * of_int (n_p self)) * psi_t_v)
      in case (if psi_t_v \<noteq> 0
               then (if c = 0 then Inl ZeroDivisionError else Inr (rnd (tau_M_ref / c)))
               else Inr 0) of
           Inl err \<Rightarrow> Inl err
         | Inr i_sq_ref0 \<Rightarrow>
             (let i_sq_ref =
                    (case i_sq_max_rnd rnd self tau_M_ref of
                       None \<Rightarrow> i_sq_ref0
                     | Some m \<Rightarrow> if \<bar>i_sq_ref0\<bar> > m then sgn i_sq_ref0 * m else i_sq_ref0);
                  i_s_ref = complex_of_real (i_sd_ref self) + \<i> * complex_of_real i_sq_ref;
                  tau_M_ref_lim = rnd (c * i_sq_ref)
              in Inr ((i_s_ref, tau_M_ref_lim), self)))"

section \<open>Observer\<close>

text \<open>
  The attribute \<^verbatim>\<open>k1\<close> holds whatever the caller passed as \<^verbatim>\<open>k\<close>: a function of the
  speed, or a number. Python decides at each use whether the operation exists for it.
\<close>

datatype gain = Callable "real \<Rightarrow> real" | Scalar real

text \<open>\<^verbatim>\<open>0*g\<close>: defined on a number, a \<^verbatim>\<open>TypeError\<close> on a function.\<close>

definition zero_times :: "gain \<Rightarrow> error + gain" where
  "zero_times g = (case g of Callable f \<Rightarrow> Inl TypeError | Scalar r \<Rightarrow> Inr (Scalar (0 * r)))"

text \<open>\<^verbatim>\<open>g(w)\<close>: defined on a function, a \<^verbatim>\<open>TypeError\<close> on a number.\<close>

definition call_gain :: "gain \<Rightarrow> real \<Rightarrow> error + real" where
  "call_gain g w = (case g of Callable f \<Rightarrow> Inr (f w) | Scalar r \<Rightarrow> Inl TypeError)"

text \<open>\<^verbatim>\<open>g*e\<close> with a complex \<open>e\<close>: defined on a number, a \<^verbatim>\<open>TypeError\<close> on a function.\<close>

definition gain_times :: "gain \<Rightarrow> complex \<Rightarrow> error + complex" where
  "gain_times g e = (case g of Callable f \<Rightarrow> Inl TypeError | Scalar r \<Rightarrow> Inr (of_real r * e))"

record Observer =
  R_s :: real
  L_d :: real
  L_q :: real
  psi_f :: real
  alpha_o :: real
  sensorless :: bool
  k1 :: gain
  k2 :: gain
  theta_m :: real
  w_m :: real
  psi_s :: complex

text \<open>\<^verbatim>\<open>Observer.__init__(par, alpha_o, k, sensorless)\<close>; \<open>k = None\<close> asks for the default gain.\<close>

definition Observer_init :: "ModelPars \<Rightarrow> real \<Rightarrow> gain option \<Rightarrow> bool \<Rightarrow> error + Observer" where
  "Observer_init par alpha k is_sensorless =
     (let self = \<lparr>R_s = ModelPars.R_s par, L_d = ModelPars.L_d par, L_q = ModelPars.L_q par,
                  psi_f = ModelPars.psi_f par, alpha_o = alpha, sensorless = is_sensorless,
                  k1 = Scalar 0, k2 = Scalar 0,
                  theta_m = 0, w_m = 0, psi_s = of_real (ModelPars.psi_f par)\<rparr>
      in if is_sensorless
         then (case k of
                 None \<Rightarrow>
                   (case py_div (0.25 * ModelPars.R_s par * (ModelPars.L_d par + ModelPars.L_q par))
                                (ModelPars.L_d par * ModelPars.L_q par) of
                      Inl err \<Rightarrow> Inl err
                    | Inr sigma0 \<Rightarrow>
                        Inr (self\<lparr>k1 := Callable (\<lambda>w. sigma0 + 0.2 * \<bar>w\<bar>),
                                  k2 := Callable (\<lambda>w. sigma0 + 0.2 * \<bar>w\<bar>)\<rparr>))
               | Some g \<Rightarrow> Inr (self\<lparr>k1 := g, k2 := g\<rparr>))
         else (let g = (case k of None \<Rightarrow> Callable (\<lambda>w. 2 * pi * 15) | Some g \<Rightarrow> g)
               in case zero_times g of
                    Inl err \<Rightarrow> Inl err
                  | Inr g0 \<Rightarrow> Inr (self\<lparr>k1 := g, k2 := g0\<rparr>)))"

text \<open>The angle wrap of the last line of \<^verbatim>\<open>update\<close>, also used by the control loop.\<close>

definition wrap_angle :: "real \<Rightarrow> real" where
  "wrap_angle theta = np_mod (theta + pi) (2 * pi) - pi"

text \<open>
  The same wrap of a float \<open>theta\<close> with the rounding of its four operations, \<open>p\<close> being the
  value of \<^verbatim>\<open>np.pi\<close>.
\<close>

definition wrap_angle_rnd :: "(real \<Rightarrow> real) \<Rightarrow> real \<Rightarrow> real \<Rightarrow> real" where
  "wrap_angle_rnd rnd p theta = rnd (np_mod_rnd rnd (rnd (theta + p)) (rnd (2 * p)) - p)"

text \<open>The three assignments under \<^verbatim>\<open># Update the states\<close>, with the gains already applied.\<close>

definition update_states ::
  "Observer \<Rightarrow> real \<Rightarrow> complex \<Rightarrow> complex \<Rightarrow> complex \<Rightarrow> complex \<Rightarrow> real \<Rightarrow> real \<Rightarrow> Observer" where
  "update_states self T_s u_s i_s k1_e k2_conj_e eps w_s =
     self\<lparr>psi_s := psi_s self + of_real T_s *
               (u_s - of_real (R_s self) * i_s - \<i> * of_real w_s * psi_s self + k1_e + k2_conj_e),
          w_m := w_m self + T_s * (alpha_o self)\<^sup>2 * eps,
          theta_m := wrap_angle (theta_m self + T_s * w_s)\<rparr>"

text \<open>
  \<^verbatim>\<open>Observer.update(T_s, u_s, i_s, w_m=None)\<close>. In the sensored branch \<^verbatim>\<open>k1\<close> is the
  attribute itself and \<^verbatim>\<open>w_s\<close> the argument \<^verbatim>\<open>w_m\<close>: the products \<^verbatim>\<open>1j*w_s\<close> and
  \<^verbatim>\<open>k1*e\<close> raise when the argument is \<^verbatim>\<open>None\<close> or the attribute a function.
\<close>

definition Observer_update ::
  "Observer \<Rightarrow> real \<Rightarrow> complex \<Rightarrow> complex \<Rightarrow> real option \<Rightarrow> error + Observer" where
  "Observer_update self T_s u_s i_s w_m_arg =
     (let e = of_real (L_d self * Re i_s) + \<i> * of_real (L_q self * Im i_s)
                + of_real (psi_f self) - psi_s self
      in if sensorless self
         then (let psi_a = of_real (psi_f self) + of_real (L_d self - L_q self) * cnj i_s
               in case call_gain (k1 self) (w_m self) of
                    Inl err \<Rightarrow> Inl err
                  | Inr k1_v \<Rightarrow>
                      (let k2_v = (if cmod psi_a > 0 then of_real k1_v * psi_a / cnj psi_a
                                   else of_real k1_v);
                           eps = (if cmod psi_a > 0 then - Im (e / psi_a) else 0);
                           w_s = 2 * alpha_o self * eps + w_m self
                       in Inr (update_states self T_s u_s i_s (of_real k1_v * e) (k2_v * cnj e) eps w_s)))
         else (case w_m_arg of
                 None \<Rightarrow> Inl TypeError
               | Some w_s \<Rightarrow>
                   (case gain_times (k1 self) e of
                      Inl err \<Rightarrow> Inl err
                    | Inr k1_e \<Rightarrow> Inr (update_states self T_s u_s i_s k1_e (0 * cnj e) 0 w_s))))"

text \<open>
  The observer step as the specification words it (section 4.1, steps 1 to 4, sensorless
  case): the new flux and speed estimates from the machine parameters, the bandwidth, the
  gain function \<open>g\<close>, the estimates and the inputs.
\<close>

definition spec_observer_step ::
  "real \<Rightarrow> real \<Rightarrow> real \<Rightarrow> real \<Rightarrow> real \<Rightarrow> (real \<Rightarrow> real) \<Rightarrow> complex \<Rightarrow> real \<Rightarrow>
   real \<Rightarrow> complex \<Rightarrow> complex \<Rightarrow> complex \<times> real" where
  "spec_observer_step Rs Ld Lq psif alpha g psi_s_est w_m_est Ts us is =
     (let e = (of_real Ld * of_real (Re is) + \<i> * of_real Lq * of_real (Im is) + of_real psif)
                - psi_s_est;
          psi_a = of_real psif + of_real (Ld - Lq) * cnj is;
          eps = (if cmod psi_a > 0 then - Im (e / psi_a) else 0);
          w_s = 2 * alpha * eps + w_m_est;
          g1 = g w_m_est;
          g2 = (if cmod psi_a > 0 then of_real g1 * psi_a / cnj psi_a else of_real g1)
      in (psi_s_est + of_real Ts *
            (us - of_real Rs * is - \<i> * of_real w_s * psi_s_est + of_real g1 * e + g2 * cnj e),
          w_m_est + Ts * alpha\<^sup>2 * eps))"

section \<open>The control loop\<close>

record 'x VectorCtrl =
  T_s :: real
  sensorless :: bool
  n_p :: int
  current_ref :: CurrentReference
  current_ctrl :: CurrentCtrl
  observer :: "Observer option"
  w_m_ref :: "real \<Rightarrow> real"
  ext :: 'x

text \<open>The block \<^verbatim>\<open># Get the states\<close> of \<^verbatim>\<open>__call__\<close>: the speed and the angle.\<close>

definition resolve_states :: "'x VectorCtrl \<Rightarrow> Drive \<Rightarrow> error + real \<times> real" where
  "resolve_states self mdl =
     (if sensorless self
      then (case observer self of
              None \<Rightarrow> Inl AttributeError
            | Some ob \<Rightarrow> Inr (w_m ob, theta_m ob))
      else Inr (of_int (n_p self) * meas_speed mdl,
                wrap_angle (of_int (n_p self) * meas_position mdl)))"

text \<open>The first statement of the block \<^verbatim>\<open># Update states\<close>.\<close>

definition update_observer ::
  "'x VectorCtrl \<Rightarrow> complex \<Rightarrow> complex \<Rightarrow> error + Observer option" where
  "update_observer self u_s i_s =
     (if sensorless self
      then (case observer self of
              None \<Rightarrow> Inl AttributeError
            | Some ob \<Rightarrow>
                (case Observer_update ob (T_s self) u_s i_s None of
                   Inl err \<Rightarrow> Inl err
                 | Inr ob' \<Rightarrow> Inr (Some ob')))
      else Inr (observer self))"

text \<open>
  \<^verbatim>\<open>VectorCtrl.__call__(mdl)\<close>: the controller after the invocation and the pair
  \<^verbatim>\<open>(T_s, d_abc)\<close> it returns.
\<close>

definition VectorCtrl_call ::
  "'x collaborators \<Rightarrow> 'x VectorCtrl \<Rightarrow> Drive \<Rightarrow>
   error + ('x VectorCtrl \<times> (real \<times> (real \<times> real \<times> real)))" where
  "VectorCtrl_call E self mdl =
     (let w_m_ref_v = w_m_ref self (clock_t E (ext self));
          i_s_abc = meas_currents mdl;
          u_dc = meas_dc_voltage mdl;
          u_s = realized_voltage E (ext self)
      in case resolve_states self mdl of
           Inl err \<Rightarrow> Inl err
         | Inr (w_m_v, theta_m_v) \<Rightarrow>
      (let i_s = exp (- \<i> * of_real theta_m_v) * abc2complex E i_s_abc
       in case py_div w_m_ref_v (of_int (n_p self)) of
            Inl err \<Rightarrow> Inl err
          | Inr w_M_ref \<Rightarrow>
       (case py_div w_m_v (of_int (n_p self)) of
            Inl err \<Rightarrow> Inl err
          | Inr w_M \<Rightarrow>
       (let (tau_M_ref, x1) = speed_ctrl_output E (ext self) w_M_ref w_M
        in case CurrentReference_output (current_ref self) tau_M_ref w_m_v u_dc of
             Inl err \<Rightarrow> Inl err
           | Inr ((i_s_ref, tau_M_ref_lim), cr1) \<Rightarrow>
        (let (u_s_ref, x2) = CurrentCtrl_output E (current_ctrl self) x1 i_s_ref i_s;
             data = \<lparr>log_i_s = i_s, log_i_s_ref = i_s_ref, log_t = clock_t E x2,
                     log_tau_M_ref_lim = tau_M_ref_lim, log_theta_m = theta_m_v,
                     log_u_dc = u_dc, log_u_s = u_s, log_w_m = w_m_v,
                     log_w_m_ref = w_m_ref_v\<rparr>;
             x3 = save E x2 data
         in case update_observer self u_s i_s of
              Inl err \<Rightarrow> Inl err
            | Inr ob' \<Rightarrow>
         (let x4 = speed_ctrl_update E x3 (T_s self) tau_M_ref_lim;
              cr2 = CurrentReference_update cr1 (T_s self) tau_M_ref_lim u_s_ref u_dc;
              x5 = pi_update E x4 (T_s self) u_s w_m_v;
              x6 = clock_update E x5 (T_s self);
              (d_abc, x7) = pwm_call E x6 (T_s self) u_s_ref u_dc theta_m_v w_m_v
          in Inr (self\<lparr>current_ref := cr2, observer := ob', ext := x7\<rparr>,
                  (T_s self, d_abc))))))))"

section \<open>Concrete machines\<close>

text \<open>
  The machine of the specification's scenario, with constant tables: no MTPA d-axis
  current, a torque limit of 10 Nm, a d-axis limit of -1 A, and a current limit of 1 A.
\<close>

definition example_self :: CurrentReference where
  "example_self =
     \<lparr>CurrentReference.n_p = 3, CurrentReference.L_d = 0.036, CurrentReference.L_q = 0.051,
      CurrentReference.psi_f = 0.545,
      i_sd_mtpa = (\<lambda>tau. 0), tau_M_lim = (\<lambda>psi. 10), i_sd_lim = (\<lambda>tau. - 1),
      psi_s_min = 0.545, i_s_max = 1, k_fw = 1, k_u = 0.95, i_sd_ref = 0\<rparr>"

text \<open>The same generator with a d-axis state beyond the current limit.\<close>

definition overcurrent_self :: CurrentReference where
  "overcurrent_self = example_self\<lparr>i_sd_ref := 2\<rparr>"

text \<open>The same generator deep in field weakening, and two updates with a voltage margin.\<close>

definition weakened_self :: CurrentReference where
  "weakened_self = example_self\<lparr>i_sd_ref := - 1\<rparr>"

definition example_calls :: "update_args list" where
  "example_calls = [(1, 0, 0, 0.5), (1, 0, 0, 0.5)]"

text \<open>A synchronous reluctance machine: no magnet flux, so the total flux is zero at start.\<close>

definition fluxless_self :: CurrentReference where
  "fluxless_self = example_self\<lparr>CurrentReference.psi_f := 0\<rparr>"

text \<open>
  A generator whose torque limit at infinite flux, the pure current limit, differs from the
  limit at every finite flux.
\<close>

definition mtpv_self :: CurrentReference where
  "mtpv_self =
     example_self\<lparr>tau_M_lim := (\<lambda>psi. case psi of Finite x \<Rightarrow> 1 | Infinity \<Rightarrow> 2.4525)\<rparr>"

text \<open>The generator of the first example as Python builds it: each literal is a float.\<close>

definition float_self :: CurrentReference where
  "float_self =
     example_self\<lparr>CurrentReference.L_d := float64 0.036, CurrentReference.L_q := float64 0.051,
                  CurrentReference.psi_f := float64 0.545, k_u := float64 0.95\<rparr>"

text \<open>
  An observer of the same machine at standstill, with the gain function \<open>1 + 0.2 |w|\<close>, and
  the same observer at an electrical speed of \<open>1000 \<pi>\<close> rad/s.
\<close>

definition rest_observer :: Observer where
  "rest_observer =
     \<lparr>R_s = 3.6, L_d = 0.036, L_q = 0.051, psi_f = 0.545, alpha_o = 2 * pi * 100,
      Observer.sensorless = True,
      k1 = Callable (\<lambda>w. 1 + 0.2 * \<bar>w\<bar>), k2 = Callable (\<lambda>w. 1 + 0.2 * \<bar>w\<bar>),
      theta_m = 0, w_m = 0, psi_s = 0.545\<rparr>"

definition spinning_observer :: Observer where
  "spinning_observer = rest_observer\<lparr>w_m := 1000 * pi\<rparr>"

definition wrapped_observer :: Observer where
  "wrapped_observer =
     spinning_observer\<lparr>psi_s := Complex 0.545 (- (0.545 * pi)), theta_m := - pi\<rparr>"

text \<open>
  Collaborators whose state is the clock time alone: proportional speed and PI laws with
  unit gain, no realized voltage, a PWM that answers half duty ratios, and the space-vector
  transformation for \<open>abc2complex\<close>.
\<close>

definition example_collaborators :: "real collaborators" where
  "example_collaborators =
     \<lparr>abc2complex = (\<lambda>(a, b, c). Complex ((2 * a - b - c) / 3) ((b - c) / sqrt 3)),
      clock_t = (\<lambda>x. x),
      realized_voltage = (\<lambda>x. 0),
      speed_ctrl_output = (\<lambda>x w_ref w. (w_ref - w, x)),
      pi_output = (\<lambda>x r y. (r - y, x)),
      save = (\<lambda>x d. x),
      speed_ctrl_update = (\<lambda>x Ts tau. x),
      pi_update = (\<lambda>x Ts u w. x),
      clock_update = (\<lambda>x Ts. x + Ts),
      pwm_call = (\<lambda>x Ts u_ref u theta w. ((1 / 2, 1 / 2, 1 / 2), x))\<rparr>"

text \<open>A sensorless controller at time 0, the same controller with sensors, and a plant.\<close>

definition example_ctrl :: "real VectorCtrl" where
  "example_ctrl =
     \<lparr>T_s = 1 / 4000, sensorless = True, n_p = 3, current_ref = example_self,
      current_ctrl = \<lparr>CurrentCtrl.L_d = 0.036, CurrentCtrl.L_q = 0.051\<rparr>,
      observer = Some rest_observer, w_m_ref = (\<lambda>t. 7.3575), ext = 0\<rparr>"

definition example_ctrl_next :: "real VectorCtrl" where
  "example_ctrl_next =
     example_ctrl\<lparr>current_ref :=
                     CurrentReference_update example_self (1 / 4000) 2.4525 (Complex 0 0.051) 540,
                   observer := Some rest_observer, ext := 1 / 4000\<rparr>"

definition sensored_ctrl :: "real VectorCtrl" where
  "sensored_ctrl = example_ctrl\<lparr>sensorless := False, observer := None\<rparr>"

definition example_mdl :: Drive where
  "example_mdl =
     \<lparr>meas_currents = (0, 0, 0), meas_dc_voltage = 540, meas_speed = 0,
      meas_position = pi / 3\<rparr>"

section \<open>Properties of the rounding\<close>

subsection \<open>Rounding to the nearest float\<close>

lemma round_even_cases: "round_even x = \<lfloor>x\<rfloor> \<or> round_even x = \<lfloor>x\<rfloor> + 1"
  by (simp add: round_even_def Let_def)

lemma round_even_err: "\<bar>of_int (round_even x) - x\<bar> \<le> 1 / 2"
proof -
  have "of_int \<lfloor>x\<rfloor> \<le> x" "x < of_int \<lfloor>x\<rfloor> + 1" by linarith+
  then show ?thesis by (auto simp: round_even_def Let_def)
qed

lemma round_even_int: "round_even (of_int n) = n"
  by (simp add: round_even_def Let_def)

lemma round_even_mono:
  assumes "x \<le> y"
  shows "round_even x \<le> round_even y"
proof (cases "\<lfloor>x\<rfloor> = \<lfloor>y\<rfloor>")
  case True
  then show ?thesis using assms by (auto simp: round_even_def Let_def)
next
  case False
  with assms have "\<lfloor>x\<rfloor> < \<lfloor>y\<rfloor>" using floor_mono[OF assms] by linarith
  moreover have "round_even x \<le> \<lfloor>x\<rfloor> + 1" using round_even_cases[of x] by linarith
  moreover have "\<lfloor>y\<rfloor> \<le> round_even y" using round_even_cases[of y] by linarith
  ultimately show ?thesis by linarith
qed

lemma round_even_minus: "round_even (- x) = - round_even x"
proof (cases "x = of_int \<lfloor>x\<rfloor>")
  case True
  then have "round_even x = \<lfloor>x\<rfloor>" "round_even (- x) = - \<lfloor>x\<rfloor>"
    using round_even_int[of "\<lfloor>x\<rfloor>"] round_even_int[of "- \<lfloor>x\<rfloor>"] by (metis, metis of_int_minus)
  then show ?thesis by simp
next
  case False
  then have lt: "of_int \<lfloor>x\<rfloor> < x" "x < of_int \<lfloor>x\<rfloor> + 1" by linarith+
  then have fm: "\<lfloor>- x\<rfloor> = - \<lfloor>x\<rfloor> - 1" by linarith
  show ?thesis using lt by (auto simp: round_even_def Let_def fm)
qed

lemma ulp_pos: "0 < ulp x" by (simp add: ulp_def)

lemma ulp_minus: "ulp (- x) = ulp x" by (simp add: ulp_def)

lemma float64_minus: "float64 (- x) = - float64 x"
  by (simp add: float64_def ulp_minus round_even_minus)

lemma ulp_le:
  assumes "x \<noteq> 0"
  shows "2 ^ 52 * ulp x \<le> \<bar>x\<bar>" and "\<bar>x\<bar> < 2 ^ 53 * ulp x"
proof -
  let ?l = "log 2 \<bar>x\<bar>"
  have pos: "0 < \<bar>x\<bar>" using assms by simp
  have s: "ulp x = 2 powr of_int \<lfloor>?l\<rfloor> / 2 ^ 52"
    by (simp add: ulp_def powr_diff powr_realpow[symmetric])
  have "2 powr of_int \<lfloor>?l\<rfloor> \<le> 2 powr ?l" by (simp add: powr_mono)
  then have a: "2 powr of_int \<lfloor>?l\<rfloor> \<le> \<bar>x\<bar>" using pos by simp
  have "2 powr ?l < 2 powr (of_int \<lfloor>?l\<rfloor> + 1)" by (intro powr_less_mono) linarith+
  then have b: "\<bar>x\<bar> < 2 * 2 powr of_int \<lfloor>?l\<rfloor>" using pos by (simp add: powr_add)
  show "2 ^ 52 * ulp x \<le> \<bar>x\<bar>" using a by (simp add: s)
  show "\<bar>x\<bar> < 2 ^ 53 * ulp x" using b by (simp add: s)
qed

lemma float64_rel: "\<bar>float64 x - x\<bar> \<le> \<bar>x\<bar> / 2 ^ 53"
proof (cases "x = 0")
  case True
  then show ?thesis by (simp add: float64_def)
next
  case False
  let ?s = "ulp x"
  have s: "0 < ?s" by (rule ulp_pos)
  have "float64 x - x = (of_int (round_even (x / ?s)) - x / ?s) * ?s"
    using False s by (simp add: float64_def algebra_simps)
  then have "\<bar>float64 x - x\<bar> = \<bar>of_int (round_even (x / ?s)) - x / ?s\<bar> * ?s"
    using s by (simp add: abs_mult)
  also have "\<dots> \<le> 1 / 2 * ?s"
    using round_even_err[of "x / ?s"] s by (intro mult_right_mono) simp_all
  also have "\<dots> \<le> \<bar>x\<bar> / 2 ^ 53" using ulp_le(1)[OF False] by simp
  finally show ?thesis .
qed



lemma float64_zero: "float64 0 = 0" by (simp add: float64_def)

lemma float64_bounds:
  assumes "0 < x"
  shows "2 ^ 52 * ulp x \<le> float64 x" and "float64 x \<le> 2 ^ 53 * ulp x"
proof -
  have x0: "x \<noteq> 0" using assms by simp
  have s: "0 < ulp x" by (rule ulp_pos)
  have lo: "2 ^ 52 \<le> x / ulp x" using ulp_le(1)[OF x0] assms s by (simp add: pos_le_divide_eq)
  have hi: "x / ulp x \<le> 2 ^ 53" using ulp_le(2)[OF x0] assms s by (simp add: pos_divide_le_eq)
  have "round_even (of_int (2 ^ 52)) \<le> round_even (x / ulp x)"
    by (rule round_even_mono) (use lo in simp)
  then have a: "2 ^ 52 \<le> round_even (x / ulp x)" by (simp only: round_even_int)
  have "round_even (x / ulp x) \<le> round_even (of_int (2 ^ 53))"
    by (rule round_even_mono) (use hi in simp)
  then have b: "round_even (x / ulp x) \<le> 2 ^ 53" by (simp only: round_even_int)
  have "real_of_int (2 ^ 52) \<le> of_int (round_even (x / ulp x))" using a by (simp only: of_int_le_iff)
  then have "(2 ^ 52 :: real) \<le> of_int (round_even (x / ulp x))" by simp
  then show "2 ^ 52 * ulp x \<le> float64 x" using x0 s by (simp add: float64_def)
  have "real_of_int (round_even (x / ulp x)) \<le> of_int (2 ^ 53)" using b by (simp only: of_int_le_iff)
  then have "of_int (round_even (x / ulp x)) \<le> (2 ^ 53 :: real)" by simp
  then show "float64 x \<le> 2 ^ 53 * ulp x" using x0 s by (simp add: float64_def)
qed

lemma float64_mono_pos:
  assumes "0 < x" "x \<le> y"
  shows "float64 x \<le> float64 y"
proof (cases "\<lfloor>log 2 x\<rfloor> = \<lfloor>log 2 y\<rfloor>")
  case True
  then have u: "ulp x = ulp y" using assms by (simp add: ulp_def)
  have "round_even (x / ulp y) \<le> round_even (y / ulp y)"
    by (rule round_even_mono) (use assms ulp_pos[of y] in \<open>simp add: divide_right_mono\<close>)
  then have "real_of_int (round_even (x / ulp y)) \<le> real_of_int (round_even (y / ulp y))" by linarith
  then show ?thesis using assms u ulp_pos[of y] by (simp add: float64_def)
next
  case False
  have "log 2 x \<le> log 2 y" using assms by simp
  then have "\<lfloor>log 2 x\<rfloor> \<le> \<lfloor>log 2 y\<rfloor>" by (rule floor_mono)
  with False have lt: "\<lfloor>log 2 x\<rfloor> + 1 \<le> \<lfloor>log 2 y\<rfloor>" by linarith
  have a: "(2::real) powr of_int (\<lfloor>log 2 x\<rfloor> + 1 - 52) \<le> 2 powr of_int (\<lfloor>log 2 y\<rfloor> - 52)"
    by (rule powr_mono) (use lt in simp_all)
  have b: "(2::real) powr of_int (\<lfloor>log 2 x\<rfloor> + 1 - 52) = 2 * 2 powr of_int (\<lfloor>log 2 x\<rfloor> - 52)"
  proof -
    have "(2::real) powr (1 + of_int (\<lfloor>log 2 x\<rfloor> - 52)) = 2 powr 1 * 2 powr of_int (\<lfloor>log 2 x\<rfloor> - 52)"
      by (rule powr_add)
    moreover have "real_of_int (\<lfloor>log 2 x\<rfloor> + 1 - 52) = 1 + of_int (\<lfloor>log 2 x\<rfloor> - 52)" by simp
    ultimately show ?thesis by simp
  qed
  have ux: "ulp x = 2 powr of_int (\<lfloor>log 2 x\<rfloor> - 52)" using assms by (simp add: ulp_def)
  have uy: "ulp y = 2 powr of_int (\<lfloor>log 2 y\<rfloor> - 52)" using assms by (simp add: ulp_def)
  from a have "2 * 2 powr of_int (\<lfloor>log 2 x\<rfloor> - 52) \<le> (2::real) powr of_int (\<lfloor>log 2 y\<rfloor> - 52)"
    by (simp only: b)
  then have u: "2 * ulp x \<le> ulp y" by (simp only: ux uy)
  have "float64 x \<le> 2 ^ 53 * ulp x" by (rule float64_bounds(2)[OF assms(1)])
  also have "\<dots> = 2 ^ 52 * (2 * ulp x)" by simp
  also have "\<dots> \<le> 2 ^ 52 * ulp y" using u by simp
  also have "\<dots> \<le> float64 y" using float64_bounds(1)[of y] assms by simp
  finally show ?thesis .
qed

lemma float64_nonneg: "0 \<le> x \<Longrightarrow> 0 \<le> float64 x"
  using float64_bounds(1)[of x] ulp_pos[of x]
  by (cases "x = 0") (auto simp: float64_zero intro: order_trans[of 0 "2 ^ 52 * ulp x"])

lemma float64_mono: "x \<le> y \<Longrightarrow> float64 x \<le> float64 y"
proof -
  assume xy: "x \<le> y"
  consider "0 < x" | "x \<le> 0" "0 \<le> y" | "y < 0" by linarith
  then show ?thesis
  proof cases
    case 1
    then show ?thesis using xy by (rule float64_mono_pos)
  next
    case 2
    have "float64 x \<le> 0" using float64_nonneg[of "- x"] 2(1) by (simp add: float64_minus)
    moreover have "0 \<le> float64 y" using 2(2) by (rule float64_nonneg)
    ultimately show ?thesis by linarith
  next
    case 3
    have "float64 (- y) \<le> float64 (- x)" by (rule float64_mono_pos) (use 3 xy in simp_all)
    then show ?thesis by (simp add: float64_minus)
  qed
qed

subsection \<open>The floats of the examples\<close>

text \<open>
  A number in the binade of \<open>2 ^ e\<close> is rounded on the grid of spacing \<open>2 ^ (e - 52)\<close>. The
  values below are the literals and the intermediate results of the examples.
\<close>

lemma float64_eval:
  assumes "2 powr of_int e \<le> \<bar>x\<bar>" "\<bar>x\<bar> < 2 powr of_int (e + 1)"
    and "of_int (round_even (x / 2 powr of_int (e - 52))) * 2 powr of_int (e - 52) = y"
  shows "float64 x = y"
proof -
  have "0 < (2::real) powr of_int e" by simp
  with assms(1) have "0 < \<bar>x\<bar>" by linarith
  then have x0: "x \<noteq> 0" by simp
  then have pos: "0 < \<bar>x\<bar>" by simp
  have "\<lfloor>log 2 \<bar>x\<bar>\<rfloor> = e"
    using assms(1,2) pos by (simp add: floor_log_eq_powr_iff)
  then have "ulp x = 2 powr of_int (e - 52)" by (simp add: ulp_def)
  then show ?thesis using x0 assms(3) by (simp add: float64_def)
qed

lemma float64_literal_0545: "float64 0.545 = 4908923593833841 / 2 ^ 53"
  by (rule float64_eval[where e = "- 1"]) (simp_all add: powr_minus_divide round_even_def Let_def)

lemma float64_psi_f_fixed: "float64 (4908923593833841 / 2 ^ 53) = 4908923593833841 / 2 ^ 53"
  by (rule float64_eval[where e = "- 1"]) (simp_all add: powr_minus_divide round_even_def Let_def)

lemma float64_literal_0055: "float64 0.055 = 7926335344172073 / 2 ^ 57"
  by (rule float64_eval[where e = "- 5"]) (simp_all add: powr_minus_divide round_even_def Let_def)

lemma float64_4_5: "float64 4.5 = 4.5"
  by (rule float64_eval[where e = 2]) (simp_all add: powr_minus_divide round_even_def Let_def)

lemma float64_one: "float64 1 = 1"
  by (rule float64_eval[where e = 0]) (simp_all add: powr_minus_divide round_even_def Let_def)

lemma float64_flux_factor: "float64 (4.5 * (4908923593833841 / 2 ^ 53)) = 5522539043063071 / 2 ^ 51"
  by (rule float64_eval[where e = 1]) (simp_all add: powr_minus_divide round_even_def Let_def)

lemma float64_quotient: "float64 (7926335344172073 / 2 ^ 57 / (5522539043063071 / 2 ^ 51)) = 6463882033983342 / 2 ^ 58"
  by (rule float64_eval[where e = "- 6"]) (simp_all add: powr_minus_divide round_even_def Let_def)

lemma float64_product: "float64 (5522539043063071 / 2 ^ 51 * (6463882033983342 / 2 ^ 58)) = 7926335344172074 / 2 ^ 57"
  by (rule float64_eval[where e = "- 5"]) (simp_all add: powr_minus_divide round_even_def Let_def)

lemma float64_is_mono: "mono float64"
  by (rule monoI) (rule float64_mono)

lemma float64_np_pi: "float64 np_pi = np_pi"
  unfolding np_pi_def
  by (rule float64_eval[where e = 1]) (simp_all add: powr_minus_divide round_even_def Let_def)

lemma float64_two_np_pi: "float64 (2 * np_pi) = 2 * np_pi"
  unfolding np_pi_def
  by (rule float64_eval[where e = 2]) (simp_all add: powr_minus_divide round_even_def Let_def)

lemma float64_minus_np_pi: "float64 (- np_pi) = - np_pi"
  by (simp only: float64_minus float64_np_pi)

lemma float64_minus_ulp: "float64 (- (1 / 2 ^ 51)) = - (1 / 2 ^ 51)"
  by (rule float64_eval[where e = "- 51"]) (simp_all add: powr_minus_divide round_even_def Let_def)

lemma float64_tie: "float64 (2 * np_pi - 1 / 2 ^ 51) = 2 * np_pi"
  unfolding np_pi_def
  by (rule float64_eval[where e = 2]) (simp_all add: powr_minus_divide round_even_def Let_def)

lemma np_pi_pos: "0 < np_pi" by (simp add: np_pi_def)

section \<open>Properties of the current reference generator\<close>

subsection \<open>What \<open>output\<close> returns\<close>

lemma output_Inr:
  assumes "CurrentReference_output self tau w u = Inr ((i, tlim), self')"
  shows "i = Complex (i_sd_ref self) (i_sq_limited self (limit_torque self tau w u))"
    and "tlim = 1.5 * of_int (CurrentReference.n_p self) * psi_t self * i_sq_limited self (limit_torque self tau w u)"
    and "self' = self"
  using assms
  by (auto simp: CurrentReference_output_def Let_def py_div_def i_sq_limited_def i_sq_unlimited_def
       complex_eq_iff split: sum.splits if_splits option.splits)

lemma output_total:
  assumes "psi_t self = 0 \<or> CurrentReference.n_p self \<noteq> 0"
  shows "CurrentReference_output self tau w u =
     Inr ((Complex (i_sd_ref self) (i_sq_limited self (limit_torque self tau w u)),
           1.5 * of_int (CurrentReference.n_p self) * psi_t self * i_sq_limited self (limit_torque self tau w u)), self)"
  using assms
  by (auto simp: CurrentReference_output_def Let_def py_div_def i_sq_limited_def i_sq_unlimited_def
       complex_eq_iff split: sum.splits if_splits option.splits)

lemma limit_torque_abs: "0 \<le> tau_M_max self w u \<Longrightarrow> \<bar>limit_torque self tau w u\<bar> \<le> \<bar>tau\<bar>"
  by (auto simp: limit_torque_def abs_mult abs_sgn_eq)

lemma limit_torque_sign: "0 \<le> tau_M_max self w u \<Longrightarrow> 0 \<le> limit_torque self tau w u * tau"
  by (auto simp: limit_torque_def sgn_if zero_le_mult_iff)

lemma i_sq_max_nonneg: "i_sq_max self t = Some m \<Longrightarrow> 0 \<le> m"
  by (auto simp: i_sq_max_def np_min2_def np_sqrt_def split: option.splits if_splits)

lemma i_sq_max_Some:
  assumes "(i_sd_ref self)\<^sup>2 \<le> (i_s_max self)\<^sup>2" "(i_sd_mtpa self \<bar>t\<bar>)\<^sup>2 \<le> (i_s_max self)\<^sup>2"
  shows "i_sq_max self t = Some (min (sqrt ((i_s_max self)\<^sup>2 - (i_sd_ref self)\<^sup>2))
                                      (sqrt ((i_s_max self)\<^sup>2 - (i_sd_mtpa self \<bar>t\<bar>)\<^sup>2)))"
  using assms by (simp add: i_sq_max_def np_min2_def np_sqrt_def)

lemma i_sq_max_None:
  assumes "(i_s_max self)\<^sup>2 < (i_sd_ref self)\<^sup>2 \<or> (i_s_max self)\<^sup>2 < (i_sd_mtpa self \<bar>t\<bar>)\<^sup>2"
  shows "i_sq_max self t = None"
  using assms by (auto simp: i_sq_max_def np_min2_def np_sqrt_def)

lemma i_sq_limited_le:
  assumes "i_sq_max self t = Some m"
  shows "\<bar>i_sq_limited self t\<bar> \<le> m"
  using assms i_sq_max_nonneg[OF assms]
  by (auto simp: i_sq_limited_def abs_mult abs_sgn_eq)

text \<open>Limiting scales the q-axis reference by a factor between 0 and 1.\<close>

lemma i_sq_limited_scale:
  "\<exists>c. 0 \<le> c \<and> c \<le> 1 \<and> i_sq_limited self t = c * i_sq_unlimited self t"
proof (cases "i_sq_max self t")
  case None
  then have "i_sq_limited self t = 1 * i_sq_unlimited self t" by (simp add: i_sq_limited_def)
  then show ?thesis by (intro exI[of _ 1]) simp
next
  case (Some m)
  note m0 = i_sq_max_nonneg[OF Some]
  show ?thesis
  proof (cases "\<bar>i_sq_unlimited self t\<bar> > m")
    case True
    let ?q = "i_sq_unlimited self t"
    from True m0 have q0: "\<bar>?q\<bar> > 0" by linarith
    have "sgn ?q * m = (m / \<bar>?q\<bar>) * ?q" using q0 by (simp add: sgn_real_def)
    moreover have "0 \<le> m / \<bar>?q\<bar>" using m0 by simp
    moreover have "m / \<bar>?q\<bar> \<le> 1" using True q0 by simp
    ultimately show ?thesis using Some True
      by (intro exI[of _ "m / \<bar>?q\<bar>"]) (simp add: i_sq_limited_def)
  next
    case False
    then have "i_sq_limited self t = 1 * i_sq_unlimited self t"
      using Some by (simp add: i_sq_limited_def)
    then show ?thesis by (intro exI[of _ 1]) simp
  qed
qed

lemma torque_of_unlimited:
  "1.5 * of_int (CurrentReference.n_p self) * psi_t self * i_sq_unlimited self t =
     (if psi_t self \<noteq> 0 \<and> CurrentReference.n_p self \<noteq> 0 then t else 0)"
  by (simp add: i_sq_unlimited_def)

lemma example_output:
  "CurrentReference_output example_self 4.905 0 540 = Inr ((\<i>, 2.4525), example_self)"
  by (simp add: CurrentReference_output_def example_self_def limit_torque_def tau_M_max_def
      psi_t_def py_div_def i_sq_max_def np_sqrt_def np_min2_def complex_eq_iff)

subsection \<open>Current limit\<close>

text \<open>
  Claim C3. Whenever \<open>output\<close> is called in a state whose d-axis current satisfies
  \<open>|i_sd_ref| \<le> i_s_max\<close> and the MTPA value it looks up (at the magnitude of the limited
  torque, as the code does) satisfies \<open>|i_sd_mtpa| \<le> i_s_max\<close>, the current reference it
  returns has magnitude at most \<open>i_s_max\<close>. The arithmetic is exact, so no tolerance is
  needed.
\<close>

theorem output_current_limit:
  assumes out: "CurrentReference_output self tau w u = Inr ((i_s_ref, tau_lim), self')"
    and sd: "\<bar>i_sd_ref self\<bar> \<le> i_s_max self"
    and mtpa: "\<bar>i_sd_mtpa self \<bar>limit_torque self tau w u\<bar>\<bar> \<le> i_s_max self"
  shows "cmod i_s_ref \<le> i_s_max self"
proof -
  let ?t = "limit_torque self tau w u"
  let ?r = "(i_s_max self)\<^sup>2 - (i_sd_ref self)\<^sup>2"
  from sd have imax: "0 \<le> i_s_max self" by linarith
  from sd have r1: "(i_sd_ref self)\<^sup>2 \<le> (i_s_max self)\<^sup>2"
    using abs_le_square_iff imax by fastforce
  from mtpa have r2: "(i_sd_mtpa self \<bar>?t\<bar>)\<^sup>2 \<le> (i_s_max self)\<^sup>2"
    using abs_le_square_iff imax by fastforce
  note m = i_sq_max_Some[OF r1 r2]
  have "\<bar>i_sq_limited self ?t\<bar> \<le> sqrt ?r"
    using i_sq_limited_le[OF m] by simp
  then have "(i_sq_limited self ?t)\<^sup>2 \<le> (sqrt ?r)\<^sup>2"
    by (metis abs_le_square_iff abs_of_nonneg real_sqrt_ge_zero r1 diff_ge_0_iff_ge)
  then have q: "(i_sq_limited self ?t)\<^sup>2 \<le> ?r" using r1 by simp
  have "cmod i_s_ref = sqrt ((i_sd_ref self)\<^sup>2 + (i_sq_limited self ?t)\<^sup>2)"
    using output_Inr(1)[OF out] by (simp add: cmod_def)
  also have "\<dots> \<le> sqrt ((i_s_max self)\<^sup>2)"
  proof (rule real_sqrt_le_mono)
    show "(i_sd_ref self)\<^sup>2 + (i_sq_limited self ?t)\<^sup>2 \<le> (i_s_max self)\<^sup>2"
      using q by linarith
  qed
  also have "\<dots> = i_s_max self" using imax by simp
  finally show ?thesis .
qed

theorem output_current_limit_witness:
  "CurrentReference_output example_self 4.905 0 540 = Inr ((\<i>, 2.4525), example_self)
   \<and> \<bar>i_sd_ref example_self\<bar> \<le> i_s_max example_self
   \<and> \<bar>i_sd_mtpa example_self \<bar>limit_torque example_self 4.905 0 540\<bar>\<bar> \<le> i_s_max example_self
   \<and> cmod \<i> \<le> i_s_max example_self"
proof -
  have h1: "CurrentReference_output example_self 4.905 0 540 = Inr ((\<i>, 2.4525), example_self)"
    by (rule example_output)
  have h2: "\<bar>i_sd_ref example_self\<bar> \<le> i_s_max example_self"
    by (simp add: example_self_def)
  have h3: "\<bar>i_sd_mtpa example_self \<bar>limit_torque example_self 4.905 0 540\<bar>\<bar> \<le> i_s_max example_self"
    by (simp add: example_self_def)
  note c = output_current_limit[OF h1 h2 h3]
  show ?thesis by (rule conjI[OF h1 conjI[OF h2 conjI[OF h3 c]]])
qed

subsection \<open>Limited torque\<close>

text \<open>
  In exact arithmetic the limited torque is the requested torque scaled by a factor between
  0 and 1: the division by \<open>1.5 n_p psi_t\<close> and the multiplication by it cancel.
\<close>

lemma output_limited_torque_exact:
  assumes out: "CurrentReference_output self tau w u = Inr ((i_s_ref, tau_lim), self')"
    and lim: "0 \<le> tau_M_max self w u"
  shows "\<bar>tau_lim\<bar> \<le> \<bar>tau\<bar> \<and> 0 \<le> tau_lim * tau"
proof -
  let ?t = "limit_torque self tau w u"
  obtain c where c: "0 \<le> c" "c \<le> 1" "i_sq_limited self ?t = c * i_sq_unlimited self ?t"
    using i_sq_limited_scale by blast
  have "tau_lim = c * (1.5 * of_int (CurrentReference.n_p self) * psi_t self * i_sq_unlimited self ?t)"
    using output_Inr(2)[OF out] c(3) by simp
  then have tlim: "tau_lim = c * (if psi_t self \<noteq> 0 \<and> CurrentReference.n_p self \<noteq> 0 then ?t else 0)"
    by (simp only: torque_of_unlimited)
  have a: "\<bar>?t\<bar> \<le> \<bar>tau\<bar>" by (rule limit_torque_abs[OF lim])
  have s: "0 \<le> ?t * tau" by (rule limit_torque_sign[OF lim])
  have "\<bar>tau_lim\<bar> \<le> \<bar>?t\<bar>"
  proof -
    have "\<bar>tau_lim\<bar> \<le> c * \<bar>?t\<bar>" using tlim c(1) by (simp add: abs_mult)
    also have "\<dots> \<le> 1 * \<bar>?t\<bar>" using c(2) by (intro mult_right_mono) simp_all
    finally show ?thesis by simp
  qed
  with a have "\<bar>tau_lim\<bar> \<le> \<bar>tau\<bar>" by linarith
  moreover have "0 \<le> tau_lim * tau"
  proof (cases "psi_t self \<noteq> 0 \<and> CurrentReference.n_p self \<noteq> 0")
    case True
    then have teq: "tau_lim = c * ?t" using tlim by simp
    have "0 \<le> c * (?t * tau)" using c(1) s by (rule mult_nonneg_nonneg)
    then show ?thesis by (simp only: teq mult.assoc)
  next
    case False
    then show ?thesis using tlim by auto
  qed
  ultimately show ?thesis by simp
qed

text \<open>
  With the identity for the rounding, the output with rounding is the output above.
\<close>

lemma tau_M_max_rnd_exact: "tau_M_max_rnd (\<lambda>x. x) self w u = tau_M_max self w u"
  by (simp add: tau_M_max_rnd_def tau_M_max_def)

lemma limit_torque_rnd_exact: "limit_torque_rnd (\<lambda>x. x) self tau w u = limit_torque self tau w u"
  by (simp only: limit_torque_rnd_def limit_torque_def tau_M_max_rnd_exact)

lemma psi_t_rnd_exact: "psi_t_rnd (\<lambda>x. x) self = psi_t self"
  by (simp add: psi_t_rnd_def psi_t_def)

lemma i_sq_max_rnd_exact: "i_sq_max_rnd (\<lambda>x. x) self t = i_sq_max self t"
  by (simp add: i_sq_max_rnd_def i_sq_max_def np_sqrt_rnd_def np_sqrt_def)

lemma output_rnd_exact:
  "CurrentReference_output_rnd (\<lambda>x. x) self tau w u = CurrentReference_output self tau w u"
  by (simp add: CurrentReference_output_rnd_def CurrentReference_output_def
      limit_torque_rnd_exact psi_t_rnd_exact i_sq_max_rnd_exact py_div_def Let_def)

lemma rnd_scale:
  assumes "\<forall>x::real. \<bar>rnd x - x\<bar> \<le> eps * \<bar>x\<bar>" "eps \<le> 1"
  shows "\<exists>a. 0 \<le> a \<and> a \<le> 1 + eps \<and> rnd x = a * x"
proof (cases "x = 0")
  case True
  from assms(1) have "\<bar>rnd 0 - 0\<bar> \<le> eps * \<bar>0\<bar>" by blast
  then have "rnd x = 1 * x" using True by simp
  moreover have "0 \<le> eps"
  proof -
    from assms(1) have "\<bar>rnd 1 - 1\<bar> \<le> eps * \<bar>1\<bar>" by blast
    moreover have "0 \<le> \<bar>rnd 1 - 1\<bar>" by simp
    ultimately show ?thesis by simp
  qed
  ultimately show ?thesis by (intro exI[of _ 1]) simp
next
  case False
  from assms(1) have r: "\<bar>rnd x - x\<bar> \<le> eps * \<bar>x\<bar>" by blast
  have "\<bar>rnd x / x - 1\<bar> = \<bar>rnd x - x\<bar> / \<bar>x\<bar>"
    using False by (simp add: abs_divide[symmetric] diff_divide_distrib)
  also have "\<dots> \<le> eps" using r False by (simp add: pos_divide_le_eq)
  finally have "\<bar>rnd x / x - 1\<bar> \<le> eps" .
  then have "0 \<le> rnd x / x" "rnd x / x \<le> 1 + eps" using assms(2) by linarith+
  moreover have "rnd x = (rnd x / x) * x" using False by simp
  ultimately show ?thesis by blast
qed

lemma limit_torque_rnd_abs:
  "0 \<le> tau_M_max_rnd rnd self w u \<Longrightarrow> \<bar>limit_torque_rnd rnd self tau w u\<bar> \<le> \<bar>tau\<bar>"
  by (auto simp: limit_torque_rnd_def abs_mult abs_sgn_eq)

lemma limit_torque_rnd_sign:
  "0 \<le> tau_M_max_rnd rnd self w u \<Longrightarrow> 0 \<le> limit_torque_rnd rnd self tau w u * tau"
  by (auto simp: limit_torque_rnd_def sgn_if zero_le_mult_iff)

lemma i_sq_max_rnd_nonneg:
  assumes "\<forall>x::real. \<bar>rnd x - x\<bar> \<le> eps * \<bar>x\<bar>" "eps \<le> 1" "i_sq_max_rnd rnd self t = Some m"
  shows "0 \<le> m"
proof -
  have "0 \<le> rnd (sqrt y)" if "0 \<le> y" for y
  proof -
    obtain a where "0 \<le> a" "rnd (sqrt y) = a * sqrt y" using rnd_scale[OF assms(1,2)] by blast
    then show ?thesis using that by simp
  qed
  then show ?thesis using assms(3)
    by (auto simp: i_sq_max_rnd_def np_min2_def np_sqrt_rnd_def split: option.splits if_splits)
qed

lemma limiting_scale:
  assumes "0 \<le> m"
  shows "\<exists>l. 0 \<le> l \<and> l \<le> 1 \<and> (if \<bar>q\<bar> > m then sgn q * m else q) = l * (q::real)"
proof (cases "\<bar>q\<bar> > m")
  case True
  with assms have q0: "\<bar>q\<bar> > 0" by linarith
  have "sgn q * m = (m / \<bar>q\<bar>) * q" using q0 by (simp add: sgn_real_def)
  moreover have "0 \<le> m / \<bar>q\<bar>" using assms by simp
  moreover have "m / \<bar>q\<bar> \<le> 1" using True q0 by simp
  ultimately show ?thesis using True by (intro exI[of _ "m / \<bar>q\<bar>"]) simp
next
  case False
  then show ?thesis by (intro exI[of _ 1]) simp
qed

lemma output_rnd_standstill:
  assumes "\<not> \<bar>tau\<bar> > tau_M_lim self Infinity"
    and "psi_t_rnd rnd self = p" "p \<noteq> 0"
    and "rnd (rnd (1.5 * of_int (CurrentReference.n_p self)) * p) = c" "c \<noteq> 0"
    and "rnd (tau / c) = q"
    and "i_sq_max_rnd rnd self tau = Some m" "\<not> \<bar>q\<bar> > m"
    and "rnd (c * q) = tlim"
  shows "CurrentReference_output_rnd rnd self tau 0 u = Inr ((Complex (i_sd_ref self) q, tlim), self)"
proof -
  have t: "limit_torque_rnd rnd self tau 0 u = tau"
    using assms(1) by (simp add: limit_torque_rnd_def tau_M_max_rnd_def)
  show ?thesis
    using assms(2-) by (simp add: CurrentReference_output_rnd_def Let_def t complex_eq_iff)
qed

lemma float_self_fields:
  "CurrentReference.psi_f float_self = float64 0.545"
  "i_sd_ref float_self = 0" "i_s_max float_self = 1" "CurrentReference.n_p float_self = 3"
  "i_sd_mtpa float_self = (\<lambda>tau. 0)" "tau_M_lim float_self = (\<lambda>psi. 10)"
  by (simp_all add: float_self_def example_self_def)

lemma float_tau_M_max: "tau_M_max_rnd float64 float_self 0 540 = 10"
  by (simp add: tau_M_max_rnd_def float_self_fields)

lemma float_psi_t: "psi_t_rnd float64 float_self = 4908923593833841 / 2 ^ 53"
proof -
  have "psi_t_rnd float64 float_self = float64 (float64 0.545)"
    by (simp add: psi_t_rnd_def float_self_fields(1,2) float64_zero)
  then show ?thesis by (simp only: float64_literal_0545 float64_psi_f_fixed)
qed

lemma float_i_sq_max: "i_sq_max_rnd float64 float_self t = Some 1"
  by (simp add: i_sq_max_rnd_def np_sqrt_rnd_def np_min2_def float_self_fields float64_zero float64_one)

lemma float_output:
  "CurrentReference_output_rnd float64 float_self (float64 0.055) 0 540 =
     Inr ((Complex 0 (6463882033983342 / 2 ^ 58), 7926335344172074 / 2 ^ 57), float_self)"
proof -
  have a: "\<not> \<bar>7926335344172073 / 2 ^ 57\<bar> > tau_M_lim float_self Infinity"
    by (simp add: float_self_fields)
  have c: "float64 (float64 (1.5 * of_int (CurrentReference.n_p float_self)) * (4908923593833841 / 2 ^ 53))
      = 5522539043063071 / 2 ^ 51"
  proof -
    have "float64 (1.5 * of_int (CurrentReference.n_p float_self)) = 4.5"
      using float64_4_5 by (simp add: float_self_fields)
    then show ?thesis by (simp only: float64_flux_factor)
  qed
  have m: "\<not> \<bar>6463882033983342 / 2 ^ 58 :: real\<bar> > 1" by simp
  have "CurrentReference_output_rnd float64 float_self (7926335344172073 / 2 ^ 57) 0 540 =
     Inr ((Complex (i_sd_ref float_self) (6463882033983342 / 2 ^ 58), 7926335344172074 / 2 ^ 57), float_self)"
    by (rule output_rnd_standstill[OF a float_psi_t _ c _ float64_quotient float_i_sq_max m float64_product]) simp_all
  then show ?thesis by (simp only: float64_literal_0055 float_self_fields(2))
qed

text \<open>
  Claim C10 states \<open>|tau_M_ref_lim| \<le> |tau_M_ref|\<close> with no tolerance. In floats the quotient
  of line 360 is rounded and the product of line 375 is rounded again: for the machine of
  the example and a requested torque of 0.055 Nm, with a torque limit of 10 Nm and a q-axis
  bound of 1 A, both nonnegative as the claim assumes, the limited torque comes back as the
  next float above the request.
\<close>

theorem limited_torque_float_counterexample:
  "CurrentReference_output_rnd float64 float_self (float64 0.055) 0 540 =
     Inr ((Complex 0 (6463882033983342 / 2 ^ 58), 7926335344172074 / 2 ^ 57), float_self)
   \<and> 0 \<le> tau_M_max_rnd float64 float_self 0 540
   \<and> i_sq_max_rnd float64 float_self (limit_torque_rnd float64 float_self (float64 0.055) 0 540) = Some 1
   \<and> \<not> \<bar>7926335344172074 / 2 ^ 57 :: real\<bar> \<le> \<bar>float64 0.055\<bar>"
proof -
  have a: "0 \<le> tau_M_max_rnd float64 float_self 0 540" by (simp add: float_tau_M_max)
  have b: "\<not> \<bar>7926335344172074 / 2 ^ 57 :: real\<bar> \<le> \<bar>7926335344172073 / 2 ^ 57\<bar>" by simp
  have b': "\<not> \<bar>7926335344172074 / 2 ^ 57 :: real\<bar> \<le> \<bar>float64 0.055\<bar>"
    unfolding float64_literal_0055 by (rule b)
  show ?thesis by (rule conjI[OF float_output conjI[OF a conjI[OF float_i_sq_max b']]])
qed

text \<open>
  Claim C10 as amended. For a rounding of relative error at most \<open>eps\<close> in every operation
  (\<open>eps = 2 ^ -53\<close> for floats away from overflow and underflow, \<open>eps = 0\<close> for exact
  arithmetic), and a nonnegative torque limit, the limited torque that \<open>output\<close> returns
  never opposes the requested torque in sign and exceeds it in magnitude by no more than the
  two roundings: \<open>|tau_M_ref_lim| \<le> (1 + eps)\<^sup>2 |tau_M_ref|\<close>. The q-axis bound needs no
  assumption: a rounded square root is nonnegative, and where the bound is NaN the q-axis
  reference is not changed.
\<close>

theorem output_limited_torque_rounded:
  assumes rel: "\<forall>x::real. \<bar>rnd x - x\<bar> \<le> eps * \<bar>x\<bar>"
    and eps: "eps \<le> 1"
    and lim: "0 \<le> tau_M_max_rnd rnd self w u"
    and out: "CurrentReference_output_rnd rnd self tau w u = Inr ((i_s_ref, tau_lim), self')"
  shows "\<bar>tau_lim\<bar> \<le> (1 + eps)\<^sup>2 * \<bar>tau\<bar> \<and> 0 \<le> tau_lim * tau"
proof -
  let ?t = "limit_torque_rnd rnd self tau w u"
  let ?p = "psi_t_rnd rnd self"
  let ?c = "rnd (rnd (1.5 * of_int (CurrentReference.n_p self)) * ?p)"
  have eps0: "0 \<le> eps"
  proof -
    from rel have "\<bar>rnd 1 - 1\<bar> \<le> eps * \<bar>1\<bar>" by blast
    moreover have "0 \<le> \<bar>rnd 1 - 1\<bar>" by simp
    ultimately show ?thesis by simp
  qed
  have r0: "rnd 0 = 0" using rel[rule_format, of 0] by simp
  have "\<exists>k. 0 \<le> k \<and> k \<le> (1 + eps)\<^sup>2 \<and> tau_lim = k * ?t"
  proof (cases "?p = 0")
    case True
    with out have "tau_lim = 0"
      by (auto simp: CurrentReference_output_rnd_def Let_def r0 split: option.splits if_splits)
    then show ?thesis by (intro exI[of _ 0]) simp
  next
    case False
    with out have c0: "?c \<noteq> 0"
      by (auto simp: CurrentReference_output_rnd_def Let_def split: if_splits)
    let ?q0 = "rnd (?t / ?c)"
    obtain l where l: "0 \<le> l" "l \<le> 1" and
      tl: "tau_lim = rnd (?c * (l * ?q0))"
    proof (cases "i_sq_max_rnd rnd self ?t")
      case None
      with out False c0 have "tau_lim = rnd (?c * (1 * ?q0))"
        by (auto simp: CurrentReference_output_rnd_def Let_def)
      then show ?thesis using that[of 1] by simp
    next
      case (Some m)
      have m0: "0 \<le> m" by (rule i_sq_max_rnd_nonneg[OF rel eps Some])
      obtain l where l: "0 \<le> l" "l \<le> 1" "(if \<bar>?q0\<bar> > m then sgn ?q0 * m else ?q0) = l * ?q0"
        using limiting_scale[OF m0] by blast
      from out False c0 Some have "tau_lim = rnd (?c * (if \<bar>?q0\<bar> > m then sgn ?q0 * m else ?q0))"
        by (auto simp: CurrentReference_output_rnd_def Let_def)
      then have "tau_lim = rnd (?c * (l * ?q0))" by (simp only: l(3))
      then show ?thesis using that[OF l(1,2)] by simp
    qed
    obtain a1 where a1: "0 \<le> a1" "a1 \<le> 1 + eps" "?q0 = a1 * (?t / ?c)"
      using rnd_scale[OF rel eps] by blast
    obtain a2 where a2: "0 \<le> a2" "a2 \<le> 1 + eps" "rnd (?c * (l * ?q0)) = a2 * (?c * (l * ?q0))"
      using rnd_scale[OF rel eps] by blast
    have "tau_lim = a2 * (?c * (l * (a1 * (?t / ?c))))" using tl a2(3) a1(3) by simp
    also have "\<dots> = (a2 * l * a1) * ?t" using c0 by simp
    finally have k: "tau_lim = (a2 * l * a1) * ?t" .
    have "0 \<le> a2 * l * a1" using a1(1) a2(1) l(1) by simp
    moreover have "a2 * l * a1 \<le> (1 + eps)\<^sup>2"
    proof -
      have "a2 * l \<le> (1 + eps) * 1" using a2 l eps0 by (intro mult_mono) simp_all
      then have "a2 * l * a1 \<le> (1 + eps) * (1 + eps)"
        using a1 a2 l eps0 by (intro mult_mono) simp_all
      then show ?thesis by (simp add: power2_eq_square)
    qed
    ultimately show ?thesis using k by blast
  qed
  then obtain k where k: "0 \<le> k" "k \<le> (1 + eps)\<^sup>2" "tau_lim = k * ?t" by blast
  have a: "\<bar>?t\<bar> \<le> \<bar>tau\<bar>" by (rule limit_torque_rnd_abs[OF lim])
  have s: "0 \<le> ?t * tau" by (rule limit_torque_rnd_sign[OF lim])
  have "\<bar>tau_lim\<bar> = k * \<bar>?t\<bar>" using k(1,3) by (simp add: abs_mult)
  also have "\<dots> \<le> (1 + eps)\<^sup>2 * \<bar>tau\<bar>" using k(1,2) a by (intro mult_mono) simp_all
  finally have m: "\<bar>tau_lim\<bar> \<le> (1 + eps)\<^sup>2 * \<bar>tau\<bar>" .
  have "0 \<le> k * (?t * tau)" using k(1) s by (rule mult_nonneg_nonneg)
  then have "0 \<le> tau_lim * tau" by (simp only: k(3) mult.assoc)
  with m show ?thesis by simp
qed

theorem output_limited_torque_rounded_witness:
  "1 / 2 ^ 53 \<le> (1::real)
   \<and> 0 \<le> tau_M_max_rnd float64 float_self 0 540
   \<and> CurrentReference_output_rnd float64 float_self (float64 0.055) 0 540 =
     Inr ((Complex 0 (6463882033983342 / 2 ^ 58), 7926335344172074 / 2 ^ 57), float_self)
   \<and> \<bar>7926335344172074 / 2 ^ 57\<bar> \<le> (1 + 1 / 2 ^ 53)\<^sup>2 * \<bar>float64 0.055\<bar>
   \<and> 0 \<le> 7926335344172074 / 2 ^ 57 * float64 0.055"
proof -
  have h1: "\<forall>x::real. \<bar>float64 x - x\<bar> \<le> 1 / 2 ^ 53 * \<bar>x\<bar>"
    using float64_rel by simp
  have h2: "1 / 2 ^ 53 \<le> (1::real)" by simp
  have h3: "0 \<le> tau_M_max_rnd float64 float_self 0 540" by (simp add: float_tau_M_max)
  note h4 = float_output
  note c = output_limited_torque_rounded[OF h1 h2 h3 h4]
  show ?thesis by (rule conjI[OF h2 conjI[OF h3 conjI[OF h4 c]]])
qed

subsection \<open>Division guards\<close>

lemma standstill_limit:
  "limit_torque self tau 0 u =
     (if \<bar>tau\<bar> > tau_M_lim self Infinity then sgn tau * tau_M_lim self Infinity else tau)"
  by (simp add: limit_torque_def tau_M_max_def)

lemma fluxless_facts:
  "psi_t fluxless_self = 0" "CurrentReference.n_p fluxless_self \<noteq> 0"
  by (simp_all add: psi_t_def fluxless_self_def example_self_def)

lemma mtpv_fields:
  "tau_M_lim mtpv_self Infinity = 2.4525" "psi_t mtpv_self = 0.545"
  "CurrentReference.n_p mtpv_self = 3" "i_sd_ref mtpv_self = 0"
  "i_sq_max mtpv_self t = Some 1"
  by (simp_all add: mtpv_self_def example_self_def psi_t_def i_sq_max_def np_sqrt_def np_min2_def)

lemma mtpv_facts:
  "CurrentReference.n_p mtpv_self \<noteq> 0"
  "(let t = (if \<bar>5\<bar> > tau_M_lim mtpv_self Infinity
                    then sgn 5 * tau_M_lim mtpv_self Infinity else 5);
               q0 = (if psi_t mtpv_self \<noteq> 0
                     then t / (1.5 * of_int (CurrentReference.n_p mtpv_self) * psi_t mtpv_self) else 0);
               q = (case i_sq_max mtpv_self t of
                      None \<Rightarrow> q0
                    | Some m \<Rightarrow> if \<bar>q0\<bar> > m then sgn q0 * m else q0)
           in Inr ((Complex (i_sd_ref mtpv_self) q,
                    1.5 * of_int (CurrentReference.n_p mtpv_self) * psi_t mtpv_self * q), mtpv_self))
     = (Inr ((\<i>, 2.4525), mtpv_self) :: error + ((complex \<times> real) \<times> CurrentReference))"
  by (simp_all add: mtpv_fields Let_def complex_eq_iff)

text \<open>
  Claim C5. The two divisions of \<open>output\<close> whose divisor depends on the state or on the
  inputs are guarded. When the total flux is zero the call returns the d-axis state with a
  zero q-axis component (and a zero limited torque). At zero speed the torque limit is the
  table's value at infinite flux, \<open>tau_M_lim(\<infinity>)\<close>: the call returns what the rest of
  \<open>output\<close> computes from the torque clamped to that value, whatever the DC voltage. The
  only division left, by \<open>1.5 n_p psi_t\<close> with a nonzero flux, cannot fail for a machine
  with a nonzero pole-pair number, so that \<open>output\<close> then always returns.
\<close>

theorem output_division_guards:
  "(psi_t self = 0 \<longrightarrow>
      CurrentReference_output self tau w u = Inr ((complex_of_real (i_sd_ref self), 0), self))
   \<and> tau_M_max self 0 u = tau_M_lim self Infinity
   \<and> (psi_t self = 0 \<or> CurrentReference.n_p self \<noteq> 0 \<longrightarrow>
        CurrentReference_output self tau 0 u =
          (let t = (if \<bar>tau\<bar> > tau_M_lim self Infinity
                    then sgn tau * tau_M_lim self Infinity else tau);
               q0 = (if psi_t self \<noteq> 0
                     then t / (1.5 * of_int (CurrentReference.n_p self) * psi_t self) else 0);
               q = (case i_sq_max self t of
                      None \<Rightarrow> q0
                    | Some m \<Rightarrow> if \<bar>q0\<bar> > m then sgn q0 * m else q0)
           in Inr ((Complex (i_sd_ref self) q,
                    1.5 * of_int (CurrentReference.n_p self) * psi_t self * q), self)))
   \<and> CurrentReference_output self tau 0 u = CurrentReference_output self tau 0 u'
   \<and> (CurrentReference.n_p self \<noteq> 0 \<longrightarrow> (\<exists>r. CurrentReference_output self tau w u = Inr r))"
proof -
  have a: "psi_t self = 0 \<longrightarrow>
      CurrentReference_output self tau w u = Inr ((complex_of_real (i_sd_ref self), 0), self)"
  proof
    assume z: "psi_t self = 0"
    have "i_sq_limited self (limit_torque self tau w u) = 0"
      using i_sq_max_nonneg[of self "limit_torque self tau w u"] z
      by (auto simp: i_sq_limited_def i_sq_unlimited_def split: option.splits)
    then show "CurrentReference_output self tau w u = Inr ((complex_of_real (i_sd_ref self), 0), self)"
      using output_total[of self tau w u] z by (simp add: complex_eq_iff)
  qed
  have b: "tau_M_max self 0 u = tau_M_lim self Infinity"
    by (simp add: tau_M_max_def)
  have c: "psi_t self = 0 \<or> CurrentReference.n_p self \<noteq> 0 \<longrightarrow>
        CurrentReference_output self tau 0 u =
          (let t = (if \<bar>tau\<bar> > tau_M_lim self Infinity
                    then sgn tau * tau_M_lim self Infinity else tau);
               q0 = (if psi_t self \<noteq> 0
                     then t / (1.5 * of_int (CurrentReference.n_p self) * psi_t self) else 0);
               q = (case i_sq_max self t of
                      None \<Rightarrow> q0
                    | Some m \<Rightarrow> if \<bar>q0\<bar> > m then sgn q0 * m else q0)
           in Inr ((Complex (i_sd_ref self) q,
                    1.5 * of_int (CurrentReference.n_p self) * psi_t self * q), self))"
  proof
    assume h: "psi_t self = 0 \<or> CurrentReference.n_p self \<noteq> 0"
    show "CurrentReference_output self tau 0 u =
          (let t = (if \<bar>tau\<bar> > tau_M_lim self Infinity
                    then sgn tau * tau_M_lim self Infinity else tau);
               q0 = (if psi_t self \<noteq> 0
                     then t / (1.5 * of_int (CurrentReference.n_p self) * psi_t self) else 0);
               q = (case i_sq_max self t of
                      None \<Rightarrow> q0
                    | Some m \<Rightarrow> if \<bar>q0\<bar> > m then sgn q0 * m else q0)
           in Inr ((Complex (i_sd_ref self) q,
                    1.5 * of_int (CurrentReference.n_p self) * psi_t self * q), self))"
      unfolding output_total[OF h, of tau 0 u] standstill_limit Let_def
        i_sq_limited_def i_sq_unlimited_def ..
  qed
  have "limit_torque self tau 0 u = limit_torque self tau 0 u'"
    by (simp only: standstill_limit)
  then have d: "CurrentReference_output self tau 0 u = CurrentReference_output self tau 0 u'"
    by (simp add: CurrentReference_output_def)
  have e: "CurrentReference.n_p self \<noteq> 0 \<longrightarrow> (\<exists>r. CurrentReference_output self tau w u = Inr r)"
    using output_total[of self tau w u] by blast
  show ?thesis by (rule conjI[OF a conjI[OF b conjI[OF c conjI[OF d e]]]])
qed

theorem output_division_guards_witness:
  "psi_t fluxless_self = 0 \<and> CurrentReference.n_p fluxless_self \<noteq> 0
   \<and> CurrentReference_output fluxless_self 5 0 540
        = Inr ((complex_of_real (i_sd_ref fluxless_self), 0), fluxless_self)
   \<and> (\<exists>r. CurrentReference_output fluxless_self 5 0 540 = Inr r)
   \<and> CurrentReference.n_p mtpv_self \<noteq> 0
   \<and> tau_M_lim mtpv_self Infinity = 2.4525
   \<and> CurrentReference_output mtpv_self 5 0 540 = Inr ((\<i>, 2.4525), mtpv_self)"
proof -
  note T1 = output_division_guards[of fluxless_self 5 0 540 540]
  have c1: "CurrentReference_output fluxless_self 5 0 540
        = Inr ((complex_of_real (i_sd_ref fluxless_self), 0), fluxless_self)"
    by (rule T1[THEN conjunct1, THEN mp, OF fluxless_facts(1)])
  have c2: "\<exists>r. CurrentReference_output fluxless_self 5 0 540 = Inr r"
    by (rule T1[THEN conjunct2, THEN conjunct2, THEN conjunct2, THEN conjunct2, THEN mp,
          OF fluxless_facts(2)])
  note T2 = output_division_guards[of mtpv_self 5 0 540 540]
  have h: "psi_t mtpv_self = 0 \<or> CurrentReference.n_p mtpv_self \<noteq> 0"
    using mtpv_facts(1) by (rule disjI2)
  have c3: "CurrentReference_output mtpv_self 5 0 540 = Inr ((\<i>, 2.4525), mtpv_self)"
    using T2[THEN conjunct2, THEN conjunct2, THEN conjunct1, THEN mp, OF h]
    by (simp only: mtpv_facts(2))
  have l: "tau_M_lim mtpv_self Infinity = 2.4525" by (rule mtpv_fields(1))
  show ?thesis
    by (rule conjI[OF fluxless_facts(1) conjI[OF fluxless_facts(2) conjI[OF c1 conjI[OF c2
          conjI[OF mtpv_facts(1) conjI[OF l c3]]]]]])
qed

subsection \<open>The q-axis bound\<close>

text \<open>
  Claim C6 asks for both radicands of the q-axis bound to be floored at zero, so that the
  bound is always a number. The code takes the square roots as they are. In the state below
  the d-axis current is 2 A against a limit of 1 A: the bound is NaN, the comparison with
  it is false, and the q-axis reference of 1 A is returned unlimited, where a zero floor
  would have returned 0 A.
\<close>

theorem i_sq_max_counterexample:
  "i_sq_max overcurrent_self 2.3175 = None
   \<and> CurrentReference_output overcurrent_self 2.3175 0 540 = Inr ((Complex 2 1, 2.3175), overcurrent_self)"
  by (simp add: CurrentReference_output_def example_self_def overcurrent_self_def limit_torque_def
      tau_M_max_def psi_t_def py_div_def i_sq_max_def np_sqrt_def np_min2_def complex_eq_iff)

text \<open>
  Claim C6 as amended. The radicands are not protected. When both are nonnegative the
  bound is the smaller of the two square roots and the returned q-axis component is within
  it. When either is negative the bound is NaN and the returned q-axis component is the
  unlimited one; the current reference that is returned is a number in both cases.
\<close>

theorem i_sq_max_unguarded:
  assumes out: "CurrentReference_output self tau w u = Inr ((i_s_ref, tau_lim), self')"
    and t: "t = limit_torque self tau w u"
  shows "((i_sd_ref self)\<^sup>2 \<le> (i_s_max self)\<^sup>2 \<and> (i_sd_mtpa self \<bar>t\<bar>)\<^sup>2 \<le> (i_s_max self)\<^sup>2 \<longrightarrow>
            i_sq_max self t = Some (min (sqrt ((i_s_max self)\<^sup>2 - (i_sd_ref self)\<^sup>2))
                                        (sqrt ((i_s_max self)\<^sup>2 - (i_sd_mtpa self \<bar>t\<bar>)\<^sup>2)))
            \<and> \<bar>Im i_s_ref\<bar> \<le> min (sqrt ((i_s_max self)\<^sup>2 - (i_sd_ref self)\<^sup>2))
                                  (sqrt ((i_s_max self)\<^sup>2 - (i_sd_mtpa self \<bar>t\<bar>)\<^sup>2)))
      \<and> ((i_s_max self)\<^sup>2 < (i_sd_ref self)\<^sup>2 \<or> (i_s_max self)\<^sup>2 < (i_sd_mtpa self \<bar>t\<bar>)\<^sup>2 \<longrightarrow>
            i_sq_max self t = None
            \<and> Im i_s_ref = (if psi_t self \<noteq> 0 then t / (1.5 * of_int (CurrentReference.n_p self) * psi_t self) else 0))"
proof -
  have im: "Im i_s_ref = i_sq_limited self t"
    using output_Inr(1)[OF out] t by simp
  have a: "i_sq_max self t = Some m \<Longrightarrow> \<bar>Im i_s_ref\<bar> \<le> m" for m
    using i_sq_limited_le[of self t m] im by simp
  have b: "i_sq_max self t = None \<Longrightarrow>
      Im i_s_ref = (if psi_t self \<noteq> 0 then t / (1.5 * of_int (CurrentReference.n_p self) * psi_t self) else 0)"
    using im by (simp add: i_sq_limited_def i_sq_unlimited_def)
  show ?thesis
    using i_sq_max_Some[of self t] i_sq_max_None[of self t] a b by blast
qed

theorem i_sq_max_unguarded_witness:
  "CurrentReference_output example_self 4.905 0 540 = Inr ((\<i>, 2.4525), example_self)
   \<and> (i_sd_ref example_self)\<^sup>2 \<le> (i_s_max example_self)\<^sup>2
   \<and> (i_sd_mtpa example_self \<bar>4.905\<bar>)\<^sup>2 \<le> (i_s_max example_self)\<^sup>2
   \<and> i_sq_max example_self 4.905 = Some 1 \<and> \<bar>Im \<i>\<bar> \<le> 1
   \<and> CurrentReference_output overcurrent_self 2.3175 0 540 = Inr ((Complex 2 1, 2.3175), overcurrent_self)
   \<and> (i_s_max overcurrent_self)\<^sup>2 < (i_sd_ref overcurrent_self)\<^sup>2
   \<and> i_sq_max overcurrent_self 2.3175 = None \<and> Im (Complex 2 1) = 1"
proof -
  have h1: "CurrentReference_output example_self 4.905 0 540 = Inr ((\<i>, 2.4525), example_self)"
    by (rule example_output)
  have t1: "4.905 = limit_torque example_self 4.905 0 540"
    by (simp add: limit_torque_def tau_M_max_def example_self_def)
  have r1: "(i_sd_ref example_self)\<^sup>2 \<le> (i_s_max example_self)\<^sup>2"
    "(i_sd_mtpa example_self \<bar>4.905\<bar>)\<^sup>2 \<le> (i_s_max example_self)\<^sup>2"
    by (simp_all add: example_self_def)
  have s1: "min (sqrt ((i_s_max example_self)\<^sup>2 - (i_sd_ref example_self)\<^sup>2))
                (sqrt ((i_s_max example_self)\<^sup>2 - (i_sd_mtpa example_self \<bar>4.905\<bar>)\<^sup>2)) = 1"
    by (simp add: example_self_def)
  have h2: "CurrentReference_output overcurrent_self 2.3175 0 540 = Inr ((Complex 2 1, 2.3175), overcurrent_self)"
    by (simp add: CurrentReference_output_def example_self_def overcurrent_self_def limit_torque_def
      tau_M_max_def psi_t_def py_div_def i_sq_max_def np_sqrt_def np_min2_def complex_eq_iff)
  have t2: "2.3175 = limit_torque overcurrent_self 2.3175 0 540"
    by (simp add: limit_torque_def tau_M_max_def example_self_def overcurrent_self_def)
  have r2: "(i_s_max overcurrent_self)\<^sup>2 < (i_sd_ref overcurrent_self)\<^sup>2"
    by (simp add: example_self_def overcurrent_self_def)
  have c1: "i_sq_max example_self 4.905 = Some 1 \<and> \<bar>Im \<i>\<bar> \<le> 1"
    using i_sq_max_unguarded[OF h1 t1] r1 s1 by simp
  have c2: "i_sq_max overcurrent_self 2.3175 = None \<and> Im (Complex 2 1) = 1"
    using i_sq_max_unguarded[OF h2 t2] r2 by simp
  from h1 r1 c1 h2 r2 c2 show ?thesis by blast
qed

subsection \<open>No hidden state in \<open>output\<close>\<close>

text \<open>
  Claim C9. A call of \<open>output\<close> that returns leaves the generator as it was, and a second
  call with the same arguments, made from the state the first one left, returns the same
  results and the same state.
\<close>

theorem output_no_state_change:
  assumes "CurrentReference_output self tau w u = Inr (r, self')"
  shows "self' = self \<and> i_sd_ref self' = i_sd_ref self
    \<and> CurrentReference_output self' tau w u = Inr (r, self')"
proof -
  obtain i tlim where r: "r = (i, tlim)" by (cases r) auto
  from assms r have "self' = self" using output_Inr(3) by blast
  with assms show ?thesis by simp
qed

theorem output_no_state_change_witness:
  "CurrentReference_output example_self 4.905 0 540 = Inr ((\<i>, 2.4525), example_self)
   \<and> i_sd_ref example_self = i_sd_ref example_self
   \<and> CurrentReference_output example_self 4.905 0 540 = Inr ((\<i>, 2.4525), example_self)"
proof -
  have h1: "CurrentReference_output example_self 4.905 0 540 = Inr ((\<i>, 2.4525), example_self)"
    by (rule example_output)
  from output_no_state_change[OF h1] h1 show ?thesis by blast
qed

subsection \<open>Field weakening\<close>

lemma update_fields:
  "k_fw (CurrentReference_update self Ts tau u_ref u) = k_fw self"
  "k_u (CurrentReference_update self Ts tau u_ref u) = k_u self"
  "i_sd_mtpa (CurrentReference_update self Ts tau u_ref u) = i_sd_mtpa self"
  by (simp_all add: CurrentReference_update_def Let_def)

lemma update_step:
  assumes "0 < k_fw self" "0 < Ts" "cmod u_ref < k_u self * u / sqrt 3"
  shows "i_sd_ref self \<le> i_sd_ref (CurrentReference_update self Ts tau u_ref u)
     \<or> (i_sd_ref (CurrentReference_update self Ts tau u_ref u) = i_sd_mtpa self \<bar>tau\<bar>
        \<and> i_sd_mtpa self \<bar>tau\<bar> < i_sd_ref self)"
proof -
  have "0 < Ts * k_fw self * (k_u self * u / sqrt 3 - cmod u_ref)"
    using assms by simp
  then show ?thesis
    by (auto simp: CurrentReference_update_def Let_def np_clip_def min_def max_def)
qed

text \<open>
  Claim C7. Along any sequence of \<open>update\<close> calls with a positive sampling period and a
  positive field-weakening gain, in which the voltage reference stays below \<open>u_s_max\<close> at
  each call, the d-axis state does not decrease from one call to the next, unless the clamp
  caps it: then the new state is the upper end of the clamp, \<open>i_sd_mtpa\<close> at the magnitude
  of the limited torque of that call, and that lies below the old state.
\<close>

theorem update_monotone:
  assumes "0 < k_fw self"
    and "\<forall>(Ts, tau, u_ref, u) \<in> set calls. 0 < Ts \<and> cmod u_ref < k_u self * u / sqrt 3"
    and "n < length calls"
    and "calls ! n = (Ts, tau, u_ref, u)"
  shows "i_sd_ref (update_calls self calls ! n) \<le> i_sd_ref (update_calls self calls ! Suc n)
     \<or> (i_sd_ref (update_calls self calls ! Suc n) = i_sd_mtpa self \<bar>tau\<bar>
        \<and> i_sd_mtpa self \<bar>tau\<bar> < i_sd_ref (update_calls self calls ! n))"
  using assms
proof (induction calls arbitrary: self n)
  case Nil
  then show ?case by simp
next
  case (Cons c calls)
  obtain T0 tau0 u0 d0 where c: "c = (T0, tau0, u0, d0)" by (cases c) auto
  let ?self' = "CurrentReference_update self T0 tau0 u0 d0"
  have hd: "0 < T0" "cmod u0 < k_u self * d0 / sqrt 3" using Cons.prems(2) c by auto
  have first: "update_calls ?self' calls ! 0 = ?self'" by (cases calls) auto
  show ?case
  proof (cases n)
    case 0
    with Cons.prems(4) c have "Ts = T0" "tau = tau0" "u_ref = u0" "u = d0" by auto
    then show ?thesis using 0 c first update_step[OF Cons.prems(1) hd, of tau] by simp
  next
    case (Suc m)
    have "i_sd_ref (update_calls ?self' calls ! m) \<le> i_sd_ref (update_calls ?self' calls ! Suc m)
     \<or> (i_sd_ref (update_calls ?self' calls ! Suc m) = i_sd_mtpa ?self' \<bar>tau\<bar>
        \<and> i_sd_mtpa ?self' \<bar>tau\<bar> < i_sd_ref (update_calls ?self' calls ! m))"
    proof (rule Cons.IH)
      show "0 < k_fw ?self'" using Cons.prems(1) by (simp add: update_fields)
      show "\<forall>(Ts, tau, u_ref, u) \<in> set calls. 0 < Ts \<and> cmod u_ref < k_u ?self' * u / sqrt 3"
        using Cons.prems(2) by (simp add: update_fields)
      show "m < length calls" using Cons.prems(3) Suc by simp
      show "calls ! m = (Ts, tau, u_ref, u)" using Cons.prems(4) Suc by simp
    qed
    then show ?thesis using Suc c by (simp add: update_fields)
  qed
qed

theorem update_monotone_witness:
  "0 < k_fw weakened_self
   \<and> 1 < length example_calls \<and> example_calls ! 1 = (1, 0, 0, 0.5)
   \<and> (i_sd_ref (update_calls weakened_self example_calls ! 1)
       \<le> i_sd_ref (update_calls weakened_self example_calls ! Suc 1)
     \<or> (i_sd_ref (update_calls weakened_self example_calls ! Suc 1) = i_sd_mtpa weakened_self \<bar>0\<bar>
        \<and> i_sd_mtpa weakened_self \<bar>0\<bar> < i_sd_ref (update_calls weakened_self example_calls ! 1)))"
proof -
  have h1: "0 < k_fw weakened_self" by (simp add: weakened_self_def example_self_def)
  have h2: "\<forall>(Ts, tau, u_ref, u) \<in> set example_calls.
         0 < Ts \<and> cmod u_ref < k_u weakened_self * u / sqrt 3"
    by (simp add: weakened_self_def example_self_def example_calls_def)
  have h3: "1 < length example_calls" by (simp add: example_calls_def)
  have h4: "example_calls ! 1 = (1, 0, 0, 0.5)" by (simp add: example_calls_def)
  note c = update_monotone[OF h1 h2 h3 h4]
  show ?thesis by (rule conjI[OF h1 conjI[OF h3 conjI[OF h4 c]]])
qed

section \<open>Properties of the observer\<close>

subsection \<open>The sensorless step against the specification\<close>

text \<open>
  Claim C1. In sensorless mode, with a gain function \<open>g\<close> in \<open>k1\<close>, every call of
  \<open>update\<close> returns, and the flux and speed estimates it leaves are those of the
  specification's step: the residual \<open>e\<close>, the auxiliary flux \<open>psi_a\<close>, the error angle
  \<open>eps\<close>, the speed \<open>w_s\<close>, the gains \<open>k1\<close> and \<open>k2\<close>, one forward-Euler step for the flux
  and the integration of \<open>eps\<close> for the speed.
\<close>

theorem observer_update_refines_spec:
  assumes "Observer.sensorless self" and "k1 self = Callable g"
  shows "\<exists>self'. Observer_update self Ts u i w = Inr self'
     \<and> (psi_s self', w_m self') =
        spec_observer_step (R_s self) (L_d self) (L_q self) (psi_f self) (alpha_o self) g
           (psi_s self) (w_m self) Ts u i"
  using assms
  by (simp add: Observer_update_def update_states_def spec_observer_step_def call_gain_def
      Let_def mult.assoc)

theorem observer_update_refines_spec_witness:
  "Observer.sensorless rest_observer
   \<and> k1 rest_observer = Callable (\<lambda>w. 1 + 0.2 * \<bar>w\<bar>)
   \<and> (\<exists>self'. Observer_update rest_observer (1 / 4000) 0 0 None = Inr self'
     \<and> (psi_s self', w_m self') =
        spec_observer_step (R_s rest_observer) (L_d rest_observer) (L_q rest_observer)
           (psi_f rest_observer) (alpha_o rest_observer) (\<lambda>w. 1 + 0.2 * \<bar>w\<bar>)
           (psi_s rest_observer) (w_m rest_observer) (1 / 4000) 0 0)"
proof -
  have h1: "Observer.sensorless rest_observer" by (simp add: rest_observer_def)
  have h2: "k1 rest_observer = Callable (\<lambda>w. 1 + 0.2 * \<bar>w\<bar>)" by (simp add: rest_observer_def)
  note c = observer_update_refines_spec[OF h1 h2, of "1 / 4000" 0 0 None]
  show ?thesis by (rule conjI[OF h1 conjI[OF h2 c]])
qed

subsection \<open>The angle wrap\<close>

lemma np_mod_range:
  assumes "0 < y"
  shows "0 \<le> np_mod x y \<and> np_mod x y < y"
proof -
  have a: "of_int \<lfloor>x / y\<rfloor> \<le> x / y" by (rule of_int_floor_le)
  have b: "x / y < of_int \<lfloor>x / y\<rfloor> + 1" by linarith
  have xy: "y * (x / y) = x" using assms by simp
  have "y * of_int \<lfloor>x / y\<rfloor> \<le> y * (x / y)"
    using a assms by (intro mult_left_mono) simp_all
  then have lo: "y * of_int \<lfloor>x / y\<rfloor> \<le> x" by (simp only: xy)
  have "y * (x / y) < y * (of_int \<lfloor>x / y\<rfloor> + 1)"
    using b assms by (intro mult_strict_left_mono) simp_all
  then have hi: "x < y * of_int \<lfloor>x / y\<rfloor> + y" by (simp only: xy distrib_left mult_1_right)
  from lo hi show ?thesis by (simp add: np_mod_def)
qed

lemma wrap_angle_range: "- pi \<le> wrap_angle theta \<and> wrap_angle theta < pi"
  using np_mod_range[of "2 * pi" "theta + pi"] by (simp add: wrap_angle_def)

lemma wrap_angle_pi: "wrap_angle pi = - pi"
  by (simp add: wrap_angle_def np_mod_def)

lemma Observer_update_theta:
  assumes "Observer_update self Ts u i w = Inr self'"
  shows "\<exists>x. theta_m self' = wrap_angle x"
  using assms
  by (auto simp: Observer_update_def update_states_def Let_def
      split: if_splits sum.splits option.splits)

lemma rest_update: "Observer_update rest_observer (1 / 4000) 0 0 None = Inr rest_observer"
  by (simp add: Observer_update_def update_states_def call_gain_def rest_observer_def Let_def
      wrap_angle_def np_mod_def)

lemma sensored_states: "resolve_states sensored_ctrl example_mdl = Inr (0, - pi)"
  by (simp add: resolve_states_def sensored_ctrl_def example_ctrl_def example_mdl_def
      wrap_angle_pi)

text \<open>
  Claim C4 puts the angle after every update in the interval \<open>(-\<pi>, \<pi>]\<close>. The wrap is
  \<^verbatim>\<open>np.mod(theta + pi, 2*pi) - pi\<close>, which sends \<open>\<pi>\<close> to \<open>-\<pi>\<close>: an observer at angle 0
  and speed \<open>1000 \<pi>\<close> rad/s, updated over one millisecond with no voltage and no current,
  ends at \<open>-\<pi>\<close>, outside that interval.
\<close>

theorem angle_wrap_counterexample:
  "Observer_update spinning_observer (1 / 1000) 0 0 None = Inr wrapped_observer
   \<and> theta_m wrapped_observer = - pi
   \<and> \<not> (- pi < theta_m wrapped_observer \<and> theta_m wrapped_observer \<le> pi)"
  by (simp add: Observer_update_def update_states_def call_gain_def spinning_observer_def
      wrapped_observer_def rest_observer_def Let_def wrap_angle_pi complex_eq_iff)

text \<open>
  With the rounding written out, the wrap stays between \<open>-p\<close> and \<open>p\<close> for every monotone
  rounding that leaves 0, \<open>p\<close>, \<open>-p\<close> and \<open>2 p\<close> as they are, and it reaches the upper end:
  for the float one unit in the last place below \<^verbatim>\<open>-np.pi\<close> the rounded remainder is
  \<^verbatim>\<open>2*np.pi\<close> itself and the wrap returns \<^verbatim>\<open>np.pi\<close>.
\<close>

lemma wrap_angle_rnd_exact: "wrap_angle_rnd (\<lambda>x. x) pi theta = wrap_angle theta"
  by (simp only: wrap_angle_rnd_def np_mod_rnd_def wrap_angle_def)

lemma wrap_angle_rnd_range:
  assumes mono: "mono rnd" and r0: "rnd 0 = 0" and rp: "rnd p = p" and rm: "rnd (- p) = - p"
    and r2: "rnd (2 * p) = 2 * p" and pos: "0 < (p::real)"
  shows "- p \<le> wrap_angle_rnd rnd p theta \<and> wrap_angle_rnd rnd p theta \<le> p"
proof -
  define r where "r = np_mod (rnd (theta + p)) (2 * p)"
  have p2: "0 < 2 * p" using pos by simp
  have r: "0 \<le> r" "r \<le> 2 * p"
    using np_mod_range[OF p2, of "rnd (theta + p)"] by (simp_all only: r_def less_imp_le)
  have "rnd 0 \<le> rnd r" by (rule monoD[OF mono r(1)])
  then have m1: "0 \<le> rnd r" by (simp only: r0)
  have "rnd r \<le> rnd (2 * p)" by (rule monoD[OF mono r(2)])
  then have m2: "rnd r \<le> 2 * p" by (simp only: r2)
  have a1: "- p \<le> rnd r - p" using m1 by linarith
  have a2: "rnd r - p \<le> p" using m2 by linarith
  have "rnd (- p) \<le> rnd (rnd r - p)" by (rule monoD[OF mono a1])
  then have b1: "- p \<le> rnd (rnd r - p)" by (simp only: rm)
  have "rnd (rnd r - p) \<le> rnd p" by (rule monoD[OF mono a2])
  then have b2: "rnd (rnd r - p) \<le> p" by (simp only: rp)
  have "wrap_angle_rnd rnd p theta = rnd (rnd r - p)"
    by (simp only: wrap_angle_rnd_def np_mod_rnd_def r2 r_def)
  with b1 b2 show ?thesis by simp
qed

lemma float_wrap_upper:
  "wrap_angle_rnd float64 np_pi (- np_pi - 1 / 2 ^ 51) = np_pi"
proof -
  have "- np_pi - 1 / 2 ^ 51 + np_pi = - (1 / 2 ^ 51)" by simp
  then have a: "float64 (- np_pi - 1 / 2 ^ 51 + np_pi) = - (1 / 2 ^ 51)"
    by (simp only: float64_minus_ulp)
  have fl: "\<lfloor>- (1 / 2 ^ 51) / (2 * np_pi)\<rfloor> = - 1"
    unfolding np_pi_def by (simp add: floor_eq_iff)
  have b: "np_mod (- (1 / 2 ^ 51)) (2 * np_pi) = 2 * np_pi - 1 / 2 ^ 51"
    unfolding np_mod_def fl by simp
  have "2 * np_pi - np_pi = np_pi" by simp
  then have c: "float64 (2 * np_pi - np_pi) = np_pi" by (simp only: float64_np_pi)
  show ?thesis
    by (simp only: wrap_angle_rnd_def np_mod_rnd_def a float64_two_np_pi b float64_tie c)
qed

text \<open>
  Claim C4 as amended, with the lower end closed as the counterexample requires. After
  every update that returns, the observer's angle lies in \<open>[-\<pi>, \<pi>]\<close>, and in sensored mode
  the angle the control loop resolves from the measured position lies in \<open>[-\<pi>, \<pi>]\<close>. In
  both places the angle is the wrap of some number; in exact arithmetic the upper end is
  not reached, and with any monotone rounding that keeps 0, \<open>p\<close>, \<open>-p\<close> and \<open>2 p\<close> the wrap
  lies in \<open>[-p, p]\<close>, \<open>p\<close> being the float for \<open>\<pi>\<close>.
\<close>

theorem angle_wrap_range:
  "(Observer_update ob Ts u i w = Inr ob' \<longrightarrow>
      (\<exists>x. theta_m ob' = wrap_angle_rnd (\<lambda>v. v) pi x)
      \<and> - pi \<le> theta_m ob' \<and> theta_m ob' \<le> pi)
   \<and> (\<not> sensorless self \<and> resolve_states self mdl = Inr (w', theta) \<longrightarrow>
        theta = wrap_angle_rnd (\<lambda>v. v) pi (of_int (n_p self) * meas_position mdl)
        \<and> - pi \<le> theta \<and> theta \<le> pi)
   \<and> (mono rnd \<and> rnd 0 = 0 \<and> rnd p = p \<and> rnd (- p) = - p \<and> rnd (2 * p) = 2 * p \<and> 0 < p \<longrightarrow>
        - p \<le> wrap_angle_rnd rnd p x \<and> wrap_angle_rnd rnd p x \<le> p)"
proof -
  have a: "Observer_update ob Ts u i w = Inr ob' \<longrightarrow>
      (\<exists>x. theta_m ob' = wrap_angle_rnd (\<lambda>v. v) pi x)
      \<and> - pi \<le> theta_m ob' \<and> theta_m ob' \<le> pi"
  proof
    assume "Observer_update ob Ts u i w = Inr ob'"
    then obtain y where y: "theta_m ob' = wrap_angle y" using Observer_update_theta by blast
    have "theta_m ob' = wrap_angle_rnd (\<lambda>v. v) pi y" by (simp only: y wrap_angle_rnd_exact)
    moreover have "- pi \<le> theta_m ob'" "theta_m ob' \<le> pi"
      using wrap_angle_range[of y] y by simp_all
    ultimately show "(\<exists>x. theta_m ob' = wrap_angle_rnd (\<lambda>v. v) pi x)
      \<and> - pi \<le> theta_m ob' \<and> theta_m ob' \<le> pi" by blast
  qed
  have b: "\<not> sensorless self \<and> resolve_states self mdl = Inr (w', theta) \<longrightarrow>
        theta = wrap_angle_rnd (\<lambda>v. v) pi (of_int (n_p self) * meas_position mdl)
        \<and> - pi \<le> theta \<and> theta \<le> pi"
  proof
    assume h: "\<not> sensorless self \<and> resolve_states self mdl = Inr (w', theta)"
    then have t: "theta = wrap_angle (of_int (n_p self) * meas_position mdl)"
      by (auto simp: resolve_states_def)
    have "theta = wrap_angle_rnd (\<lambda>v. v) pi (of_int (n_p self) * meas_position mdl)"
      by (simp only: t wrap_angle_rnd_exact)
    moreover have "- pi \<le> theta" "theta \<le> pi"
      using wrap_angle_range[of "of_int (n_p self) * meas_position mdl"] t by simp_all
    ultimately show "theta = wrap_angle_rnd (\<lambda>v. v) pi (of_int (n_p self) * meas_position mdl)
        \<and> - pi \<le> theta \<and> theta \<le> pi" by blast
  qed
  have c: "mono rnd \<and> rnd 0 = 0 \<and> rnd p = p \<and> rnd (- p) = - p \<and> rnd (2 * p) = 2 * p \<and> 0 < p \<longrightarrow>
        - p \<le> wrap_angle_rnd rnd p x \<and> wrap_angle_rnd rnd p x \<le> p"
    using wrap_angle_rnd_range[of rnd p x] by blast
  show ?thesis by (rule conjI[OF a conjI[OF b c]])
qed

theorem angle_wrap_range_witness:
  "Observer_update rest_observer (1 / 4000) 0 0 None = Inr rest_observer
   \<and> \<not> sensorless sensored_ctrl
   \<and> resolve_states sensored_ctrl example_mdl = Inr (0, - pi)
   \<and> - pi \<le> theta_m rest_observer \<and> theta_m rest_observer \<le> pi
   \<and> - pi = wrap_angle_rnd (\<lambda>v. v) pi (of_int (n_p sensored_ctrl) * meas_position example_mdl)
   \<and> float64 0 = 0 \<and> float64 np_pi = np_pi \<and> float64 (- np_pi) = - np_pi
   \<and> float64 (2 * np_pi) = 2 * np_pi \<and> 0 < np_pi
   \<and> wrap_angle_rnd float64 np_pi (- np_pi - 1 / 2 ^ 51) = np_pi
   \<and> - np_pi \<le> wrap_angle_rnd float64 np_pi (- np_pi - 1 / 2 ^ 51)
   \<and> wrap_angle_rnd float64 np_pi (- np_pi - 1 / 2 ^ 51) \<le> np_pi"
proof -
  note T = angle_wrap_range[where ob = rest_observer and Ts = "1 / 4000" and u = 0 and i = 0
      and w = None and ob' = rest_observer and self = sensored_ctrl and mdl = example_mdl
      and w' = 0 and theta = "- pi" and rnd = float64 and p = np_pi
      and x = "- np_pi - 1 / 2 ^ 51"]
  have h1: "Observer_update rest_observer (1 / 4000) 0 0 None = Inr rest_observer"
    by (rule rest_update)
  have h2: "\<not> sensorless sensored_ctrl" by (simp add: sensored_ctrl_def)
  have h3: "resolve_states sensored_ctrl example_mdl = Inr (0, - pi)"
    by (rule sensored_states)
  have h4: "mono float64 \<and> float64 0 = 0 \<and> float64 np_pi = np_pi \<and> float64 (- np_pi) = - np_pi
      \<and> float64 (2 * np_pi) = 2 * np_pi \<and> 0 < np_pi"
    by (intro conjI float64_is_mono float64_zero float64_np_pi float64_minus_np_pi float64_two_np_pi np_pi_pos)
  note c1 = T[THEN conjunct1, THEN mp, OF h1, THEN conjunct2]
  note c2 = T[THEN conjunct2, THEN conjunct1, THEN mp, OF conjI[OF h2 h3], THEN conjunct1]
  note c3 = T[THEN conjunct2, THEN conjunct2, THEN mp, OF h4]
  show ?thesis
    by (intro conjI h1 h2 h3 c1[THEN conjunct1] c1[THEN conjunct2] c2 float64_zero float64_np_pi float64_minus_np_pi float64_two_np_pi
        np_pi_pos float_wrap_upper c3[THEN conjunct1] c3[THEN conjunct2])
qed

subsection \<open>Construction in sensored mode\<close>

text \<open>
  Claim C8 expects the construction of an observer in sensored mode, with no gain given,
  to succeed. The constructor stores the default gain as a function and then multiplies it
  by zero for \<^verbatim>\<open>k2\<close>: for every machine and every bandwidth the call ends in a
  \<^verbatim>\<open>TypeError\<close>, and no update follows.
\<close>

theorem observer_init_sensored_raises:
  "Observer_init par alpha None False = Inl TypeError"
  by (simp add: Observer_init_def zero_times_def)

section \<open>Properties of the control loop\<close>

lemma example_torque_output:
  "CurrentReference_output example_self 2.4525 0 540 = Inr ((\<i>, 2.4525), example_self)"
  by (simp add: CurrentReference_output_def example_self_def limit_torque_def tau_M_max_def
      psi_t_def py_div_def i_sq_max_def np_sqrt_def np_min2_def complex_eq_iff)

lemma example_voltage_output:
  "CurrentCtrl_output example_collaborators (current_ctrl example_ctrl) 0 \<i> 0
     = (Complex 0 0.051, 0)"
  by (simp add: CurrentCtrl_output_def example_collaborators_def example_ctrl_def complex_eq_iff)

lemma example_call:
  "VectorCtrl_call example_collaborators example_ctrl example_mdl =
     Inr (example_ctrl_next, (1 / 4000, (1 / 2, 1 / 2, 1 / 2)))"
proof -
  have a: "resolve_states example_ctrl example_mdl = Inr (0, 0)"
    by (simp add: resolve_states_def example_ctrl_def rest_observer_def)
  have b: "update_observer example_ctrl 0 0 = Inr (Some rest_observer)"
    by (simp add: update_observer_def example_ctrl_def rest_update)
  have c: "CurrentReference_output (current_ref example_ctrl) (981 / 400) 0 540
      = Inr ((\<i>, 2.4525), example_self)"
    using example_torque_output by (simp add: example_ctrl_def)
  have d: "CurrentCtrl_output example_collaborators (current_ctrl example_ctrl) 0 \<i> 0
      = (Complex 0 0.051, 0)"
    by (rule example_voltage_output)
  have e: "abc2complex example_collaborators (meas_currents example_mdl) = 0"
    by (simp add: example_collaborators_def example_mdl_def complex_eq_iff)
  have f: "speed_ctrl_output example_collaborators 0 (981 / 400) 0 = (981 / 400, 0)"
    by (simp add: example_collaborators_def)
  have g: "T_s example_ctrl = 1 / 4000" "n_p example_ctrl = 3" "ext example_ctrl = 0"
      "w_m_ref example_ctrl = (\<lambda>t. 7.3575)" "meas_dc_voltage example_mdl = 540"
    by (simp_all add: example_ctrl_def example_mdl_def)
  have h: "realized_voltage example_collaborators 0 = 0"
      "save example_collaborators = (\<lambda>x d. x)"
      "speed_ctrl_update example_collaborators = (\<lambda>x Ts tau. x)"
      "pi_update example_collaborators = (\<lambda>x Ts u w. x)"
      "clock_update example_collaborators = (\<lambda>x Ts. x + Ts)"
      "pwm_call example_collaborators = (\<lambda>x Ts u_ref u theta w. ((1 / 2, 1 / 2, 1 / 2), x))"
    by (simp_all add: example_collaborators_def)
  show ?thesis
    by (simp add: VectorCtrl_call_def a b c d e f g h py_div_def example_ctrl_next_def)
qed

text \<open>
  Claim C2. In an invocation that returns, the three outputs are computed before any
  update and from the state the previous invocation left: the speed controller's output
  from the collaborators' state \<open>ext self\<close>, the current reference from the generator
  \<open>current_ref self\<close> (which it leaves unchanged), and the current controller's output from
  the collaborators' state \<open>x1\<close> that the speed controller's output left. The updates come
  after: the observer's and the generator's updates act on the observer and the generator
  of the incoming controller and take the outputs \<open>tau_lim\<close> and \<open>u_ref\<close> as arguments, and
  the updates of the speed controller, the PI law and the clock act, in this order, on the
  collaborators' state \<open>x2\<close> left by the last output, after the record \<open>d\<close> of the outputs
  has been saved.
\<close>

theorem call_outputs_before_updates:
  assumes "VectorCtrl_call E self mdl = Inr (self', res)"
  shows "\<exists>w theta i tau x1 i_ref tau_lim u_ref x2 d.
     resolve_states self mdl = Inr (w, theta)
   \<and> i = exp (- \<i> * of_real theta) * abc2complex E (meas_currents mdl)
   \<and> speed_ctrl_output E (ext self) (w_m_ref self (clock_t E (ext self)) / of_int (n_p self))
        (w / of_int (n_p self)) = (tau, x1)
   \<and> CurrentReference_output (current_ref self) tau w (meas_dc_voltage mdl)
        = Inr ((i_ref, tau_lim), current_ref self)
   \<and> CurrentCtrl_output E (current_ctrl self) x1 i_ref i = (u_ref, x2)
   \<and> log_i_s_ref d = i_ref \<and> log_tau_M_ref_lim d = tau_lim
   \<and> update_observer self (realized_voltage E (ext self)) i = Inr (observer self')
   \<and> current_ref self' =
        CurrentReference_update (current_ref self) (T_s self) tau_lim u_ref (meas_dc_voltage mdl)
   \<and> ext self' =
        snd (pwm_call E
               (clock_update E
                  (pi_update E
                     (speed_ctrl_update E (save E x2 d) (T_s self) tau_lim)
                     (T_s self) (realized_voltage E (ext self)) w)
                  (T_s self))
               (T_s self) u_ref (meas_dc_voltage mdl) theta w)"
proof -
  from assms obtain w theta where r: "resolve_states self mdl = Inr (w, theta)"
    by (auto simp: VectorCtrl_call_def Let_def split: sum.splits)
  let ?i = "exp (- \<i> * of_real theta) * abc2complex E (meas_currents mdl)"
  let ?u = "meas_dc_voltage mdl"
  let ?us = "realized_voltage E (ext self)"
  from assms r have np: "n_p self \<noteq> 0"
    by (auto simp: VectorCtrl_call_def Let_def py_div_def split: sum.splits if_splits)
  obtain tau x1 where s: "speed_ctrl_output E (ext self)
      (w_m_ref self (clock_t E (ext self)) / of_int (n_p self)) (w / of_int (n_p self)) = (tau, x1)"
    by (cases "speed_ctrl_output E (ext self)
      (w_m_ref self (clock_t E (ext self)) / of_int (n_p self)) (w / of_int (n_p self))") auto
  from assms r np s obtain i_ref tau_lim cr1 where
    o: "CurrentReference_output (current_ref self) tau w ?u = Inr ((i_ref, tau_lim), cr1)"
    by (auto simp: VectorCtrl_call_def Let_def py_div_def split: sum.splits)
  have cr1: "cr1 = current_ref self" by (rule output_Inr(3)[OF o])
  obtain u_ref x2 where c: "CurrentCtrl_output E (current_ctrl self) x1 i_ref ?i = (u_ref, x2)"
    by (cases "CurrentCtrl_output E (current_ctrl self) x1 i_ref ?i") auto
  let ?d = "\<lparr>log_i_s = ?i, log_i_s_ref = i_ref, log_t = clock_t E x2,
             log_tau_M_ref_lim = tau_lim, log_theta_m = theta,
             log_u_dc = ?u, log_u_s = ?us, log_w_m = w,
             log_w_m_ref = w_m_ref self (clock_t E (ext self))\<rparr>"
  from assms r np s o c obtain ob' where ob: "update_observer self ?us ?i = Inr ob'"
    by (auto simp: VectorCtrl_call_def Let_def py_div_def split: sum.splits)
  let ?x6 = "clock_update E (pi_update E (speed_ctrl_update E (save E x2 ?d) (T_s self) tau_lim)
                     (T_s self) ?us w) (T_s self)"
  from assms r np s o c ob have
    "self' = self\<lparr>current_ref := CurrentReference_update cr1 (T_s self) tau_lim u_ref ?u,
                   observer := ob',
                   ext := snd (pwm_call E ?x6 (T_s self) u_ref ?u theta w)\<rparr>"
    by (auto simp: VectorCtrl_call_def Let_def py_div_def split: prod.splits)
  then have e: "observer self' = ob'"
      "current_ref self' = CurrentReference_update (current_ref self) (T_s self) tau_lim u_ref ?u"
      "ext self' = snd (pwm_call E ?x6 (T_s self) u_ref ?u theta w)"
    using cr1 by simp_all
  have d: "log_i_s_ref ?d = i_ref" "log_tau_M_ref_lim ?d = tau_lim" by simp_all
  from r s o[unfolded cr1] c d ob[folded e(1)] e(2) e(3) show ?thesis by blast
qed

theorem call_outputs_before_updates_witness:
  "VectorCtrl_call example_collaborators example_ctrl example_mdl =
     Inr (example_ctrl_next, (1 / 4000, (1 / 2, 1 / 2, 1 / 2)))
   \<and> (\<exists>w theta i tau x1 i_ref tau_lim u_ref x2 d.
     resolve_states example_ctrl example_mdl = Inr (w, theta)
   \<and> i = exp (- \<i> * of_real theta) * abc2complex example_collaborators (meas_currents example_mdl)
   \<and> speed_ctrl_output example_collaborators (ext example_ctrl)
        (w_m_ref example_ctrl (clock_t example_collaborators (ext example_ctrl))
           / of_int (n_p example_ctrl))
        (w / of_int (n_p example_ctrl)) = (tau, x1)
   \<and> CurrentReference_output (current_ref example_ctrl) tau w (meas_dc_voltage example_mdl)
        = Inr ((i_ref, tau_lim), current_ref example_ctrl)
   \<and> CurrentCtrl_output example_collaborators (current_ctrl example_ctrl) x1 i_ref i = (u_ref, x2)
   \<and> log_i_s_ref d = i_ref \<and> log_tau_M_ref_lim d = tau_lim
   \<and> update_observer example_ctrl (realized_voltage example_collaborators (ext example_ctrl)) i
        = Inr (observer example_ctrl_next)
   \<and> current_ref example_ctrl_next =
        CurrentReference_update (current_ref example_ctrl) (T_s example_ctrl) tau_lim u_ref
          (meas_dc_voltage example_mdl)
   \<and> ext example_ctrl_next =
        snd (pwm_call example_collaborators
               (clock_update example_collaborators
                  (pi_update example_collaborators
                     (speed_ctrl_update example_collaborators
                        (save example_collaborators x2 d) (T_s example_ctrl) tau_lim)
                     (T_s example_ctrl)
                     (realized_voltage example_collaborators (ext example_ctrl)) w)
                  (T_s example_ctrl))
               (T_s example_ctrl) u_ref (meas_dc_voltage example_mdl) theta w))"
proof -
  have h: "VectorCtrl_call example_collaborators example_ctrl example_mdl =
     Inr (example_ctrl_next, (1 / 4000, (1 / 2, 1 / 2, 1 / 2)))"
    by (rule example_call)
  note c = call_outputs_before_updates[OF h]
  show ?thesis by (rule conjI[OF h c])
qed

end
